theory Spec2Isabelle
  imports Main "HOL-Library.Sublist"
begin

section \<open>Python string operations used by the agents\<close>

text \<open>
  Python strings are modelled as \<^typ>\<open>string\<close>. The operations below follow
  \<^verbatim>\<open>str.lower\<close>, \<^verbatim>\<open>str.strip\<close>, the substring test \<^verbatim>\<open>a in b\<close> and
  \<^verbatim>\<open>str.split(': ')\<close> on ASCII text; a character outside ASCII is left as it is
  by \<open>lower\<close> and is never white space.
\<close>

definition upper_letters :: string where
  "upper_letters = ''ABCDEFGHIJKLMNOPQRSTUVWXYZ''"

definition lower_letters :: string where
  "lower_letters = ''abcdefghijklmnopqrstuvwxyz''"

definition lower_char :: "char \<Rightarrow> char" where
  "lower_char c = (case map_of (zip upper_letters lower_letters) c of
                     Some d \<Rightarrow> d | None \<Rightarrow> c)"

definition lower :: "string \<Rightarrow> string" where
  "lower s = map lower_char s"

text \<open>The ASCII characters for which \<^verbatim>\<open>str.isspace\<close> holds.\<close>

definition is_space :: "char \<Rightarrow> bool" where
  "is_space c = (c \<in> set [CHR 0x09, CHR 0x0A, CHR 0x0B, CHR 0x0C, CHR 0x0D,
                            CHR 0x1C, CHR 0x1D, CHR 0x1E, CHR 0x1F, CHR 0x20])"

definition strip :: "string \<Rightarrow> string" where
  "strip s = rev (dropWhile is_space (rev (dropWhile is_space s)))"

text \<open>\<^verbatim>\<open>sub in s\<close>: \<open>sub\<close> occurs in \<open>s\<close> as a contiguous block.\<close>

fun contains :: "string \<Rightarrow> string \<Rightarrow> bool" where
  "contains sub [] = (sub = [])"
| "contains sub (c # cs) = (prefix sub (c # cs) \<or> contains sub cs)"

text \<open>
  \<^verbatim>\<open>s.split(': ')\<close>: the pieces between the occurrences of colon-space, scanned from
  the left; \<open>acc\<close> is the piece being read. The result is never empty.
\<close>

fun split_colon_space :: "string \<Rightarrow> string \<Rightarrow> string list" where
  "split_colon_space acc [] = [acc]"
| "split_colon_space acc [c] = [acc @ [c]]"
| "split_colon_space acc (c # d # cs) =
     (if c = CHR '':'' \<and> d = CHR '' '' then acc # split_colon_space [] cs
      else split_colon_space (acc @ [c]) (d # cs))"

text \<open>\<^verbatim>\<open>topic.split(': ')[-1]\<close>\<close>

definition topic_name_of :: "string \<Rightarrow> string" where
  "topic_name_of topic = last (split_colon_space [] topic)"

text \<open>The helper \<^verbatim>\<open>normalize(name) = str(name).strip().lower()\<close> of the interviewer.\<close>

definition normalize_name :: "string \<Rightarrow> string" where
  "normalize_name name = lower (strip name)"

section \<open>The interviewer of langchain-interview-agent\<close>

text \<open>
  \<^verbatim>\<open>InterviewerAgent.process\<close> reads its working values from the session dictionary,
  decides whether to leave the current topic, selects a new topic when none is active,
  calls the language model and writes the values back. The session is the dictionary
  the chat endpoint stores; of the resume only the list of skills is read here. A project
  entry is a dictionary with string values or a bare string; the counters start at 0
  and are only ever incremented, so they are natural numbers. The prompts handed to the
  model do not flow back into the session and are left out.
\<close>

datatype project = ProjDict "(string \<times> string) list" | ProjStr string

record message =
  role :: string
  content :: string
  agent :: "string option"

record session =
  state :: string
  history :: "message list"
  cv_skills :: "string list"
  unverified_skills :: "string list"
  discovered_projects :: "project list"
  current_topic :: "string option"
  covered_topics :: "string list"
  topic_turns :: nat
  unverified_asked :: nat
  projects_asked :: nat

text \<open>Python truth of an optional string: neither \<^verbatim>\<open>None\<close> nor empty.\<close>

definition truthy :: "string option \<Rightarrow> bool" where
  "truthy t = (case t of None \<Rightarrow> False | Some s \<Rightarrow> s \<noteq> [])"

definition unknown_signals :: "string list" where
  "unknown_signals =
     [''don't know'', ''do not know'', ''no idea'', ''not sure'',
      ''don't have experience'', ''never used'', ''don't have any experience'',
      ''basic structure'', ''don't know much'', ''just did'', ''same questions'',
      ''skip'', ''move on'', ''no experience'', ''haven't used'']"

definition is_unknown :: "string \<Rightarrow> bool" where
  "is_unknown user_input =
     list_ex (\<lambda>signal. contains signal (lower user_input)) unknown_signals"

text \<open>\<^verbatim>\<open>"unverified" in current_topic.lower()\<close>: the category test of the source.\<close>

definition is_unverified_topic :: "string \<Rightarrow> bool" where
  "is_unverified_topic topic = contains ''unverified'' (lower topic)"

definition max_turns :: "string \<Rightarrow> nat" where
  "max_turns topic = (if is_unverified_topic topic then 2 else 3)"

text \<open>Lines 48-50: the turn count goes up when a topic is active.\<close>

definition bump_turns :: "session \<Rightarrow> session" where
  "bump_turns c =
     (if truthy (current_topic c) then c\<lparr>topic_turns := topic_turns c + 1\<rparr> else c)"

text \<open>Lines 68-76, on the session whose turn count is already incremented.\<close>

definition force_transition :: "string \<Rightarrow> session \<Rightarrow> bool" where
  "force_transition user_input c =
     (if is_unknown user_input \<and> truthy (current_topic c) then True
      else (case current_topic c of
              None \<Rightarrow> False
            | Some t \<Rightarrow> t \<noteq> [] \<and> topic_turns c > max_turns t))"

definition normalized_covered :: "session \<Rightarrow> string list" where
  "normalized_covered c = map normalize_name (covered_topics c)"

text \<open>Lines 80-93: the topic is marked as covered and counted once, then cleared.\<close>

definition retire :: "string \<Rightarrow> session \<Rightarrow> session" where
  "retire topic c =
     (let topic_name = topic_name_of topic;
          c1 = (if normalize_name topic_name \<notin> set (normalized_covered c)
                then (if is_unverified_topic topic
                      then c\<lparr>covered_topics := covered_topics c @ [topic_name],
                             unverified_asked := unverified_asked c + 1\<rparr>
                      else c\<lparr>covered_topics := covered_topics c @ [topic_name],
                             projects_asked := projects_asked c + 1\<rparr>)
                else c)
      in c1\<lparr>current_topic := None, topic_turns := 0\<rparr>)"

text \<open>Lines 48-97 together: the transition policy of one turn.\<close>

definition transition :: "string \<Rightarrow> session \<Rightarrow> session" where
  "transition user_input ctx =
     (let c = bump_turns ctx
      in case current_topic c of
           None \<Rightarrow> c
         | Some t \<Rightarrow> if force_transition user_input c then retire t c else c)"

text \<open>\<^verbatim>\<open>p.get('name') if isinstance(p, dict) else p\<close>\<close>

definition project_name :: "project \<Rightarrow> string option" where
  "project_name p = (case p of ProjDict kvs \<Rightarrow> map_of kvs ''name'' | ProjStr s \<Rightarrow> Some s)"

text \<open>How an f-string prints the optional name.\<close>

definition fmt :: "string option \<Rightarrow> string" where
  "fmt v = (case v of None \<Rightarrow> ''None'' | Some s \<Rightarrow> s)"

definition available_projects :: "session \<Rightarrow> project list" where
  "available_projects c =
     filter (\<lambda>p. truthy (project_name p) \<and>
                 normalize_name (fmt (project_name p)) \<notin> set (normalized_covered c))
            (discovered_projects c)"

definition verified_skills :: "session \<Rightarrow> string list" where
  "verified_skills c =
     filter (\<lambda>s. normalize_name s \<notin> set (map normalize_name (unverified_skills c)) \<and>
                 normalize_name s \<notin> set (normalized_covered c))
            (cv_skills c)"

definition pick_unverified :: "session \<Rightarrow> bool" where
  "pick_unverified c =
     (unverified_asked c < length (unverified_skills c) \<and>
      projects_asked c = unverified_asked c * 2)"

text \<open>
  Lines 101-142: the topic selector. In the generic fallback no topic is assigned, so
  \<open>current_topic\<close> keeps the value it had.
\<close>

definition select_topic :: "session \<Rightarrow> session" where
  "select_topic c =
     (let c1 = c\<lparr>state := ''INTERVIEWING'', topic_turns := 1\<rparr>
      in if pick_unverified c
         then c1\<lparr>current_topic :=
                   Some (''Unverified: '' @ unverified_skills c ! unverified_asked c)\<rparr>
         else (case available_projects c of
                 proj # _ \<Rightarrow>
                   c1\<lparr>current_topic := Some (''Project: '' @ fmt (project_name proj))\<rparr>
               | [] \<Rightarrow>
                   (case verified_skills c of
                      skill # _ \<Rightarrow> c1\<lparr>current_topic := Some (''Verified Skill: '' @ skill)\<rparr>
                    | [] \<Rightarrow> c1)))"

text \<open>Line 100: the selector runs on the first interview turn or when no topic is active.\<close>

definition selector_runs :: "session \<Rightarrow> session \<Rightarrow> bool" where
  "selector_runs ctx c = (state ctx = ''INTERVIEW_START'' \<or> \<not> truthy (current_topic c))"

text \<open>
  The language-model call of line 154 either returns or raises. When it raises, lines
  157-162 are not reached: the dictionary keeps what was already written into it, the
  state and topic of lines 101 and 142 and the covered list, which line 85 extends in
  place, while the counters and the turn count keep their old values.
\<close>

datatype 'a outcome = Completed 'a | ServiceError 'a

definition process :: "bool \<Rightarrow> string \<Rightarrow> session \<Rightarrow> session outcome" where
  "process llm_ok user_input ctx =
     (let c = transition user_input ctx;
          c' = (if selector_runs ctx c then select_topic c else c)
      in if llm_ok then Completed c'
         else ServiceError (ctx\<lparr>state := state c', current_topic := current_topic c',
                                 covered_topics := covered_topics c'\<rparr>))"

text \<open>
  The session store keeps the dictionary an agent was handed, whether the call returned
  or raised, so the next turn starts from it.
\<close>

fun after_turn :: "'a outcome \<Rightarrow> 'a" where
  "after_turn (Completed c) = c"
| "after_turn (ServiceError c) = c"

text \<open>
  A run of interviewer turns; each turn is the user's text together with whether the
  language-model call of that turn returned.
\<close>

fun interview :: "session \<Rightarrow> (bool \<times> string) list \<Rightarrow> session" where
  "interview c [] = c"
| "interview c ((llm_ok, user_input) # turns) =
     interview (after_turn (process llm_ok user_input c)) turns"

text \<open>The topic fields of a session on which no interviewer turn has run yet.\<close>

definition fresh :: "session \<Rightarrow> bool" where
  "fresh c = (current_topic c = None \<and> covered_topics c = [] \<and> topic_turns c = 0 \<and>
              unverified_asked c = 0 \<and> projects_asked c = 0)"

section \<open>The interviewers of the LangGraph variant\<close>

datatype py_error =
  AttributeError | KeyError | TypeError | OutputParserException | ServiceUnavailable

text \<open>
  \<^verbatim>\<open>interviewer_node\<close> of \<^verbatim>\<open>src/graph.py\<close>, lines 134-147: the topic chosen when none is
  active. The comprehension calls \<^verbatim>\<open>p.get\<close> on every entry, which a bare string does
  not have, and \<^verbatim>\<open>proj['name']\<close> needs the key.
\<close>

definition is_bare_string :: "project \<Rightarrow> bool" where
  "is_bare_string p = (case p of ProjStr _ \<Rightarrow> True | ProjDict _ \<Rightarrow> False)"

definition node_select :: "session \<Rightarrow> py_error + string" where
  "node_select c =
     (let can_verify = unverified_asked c < length (unverified_skills c);
          must_do_project = (projects_asked c < unverified_asked c * 2 \<or> \<not> can_verify)
      in if can_verify \<and> \<not> must_do_project
         then Inr (''Unverified: '' @ unverified_skills c ! unverified_asked c)
         else if list_ex is_bare_string (discovered_projects c) then Inl AttributeError
         else (case filter (\<lambda>p. case project_name p of
                                    None \<Rightarrow> True
                                  | Some n \<Rightarrow> n \<notin> set (covered_topics c))
                           (discovered_projects c) of
                 [] \<Rightarrow> Inr ''CV_Project''
               | proj # _ \<Rightarrow>
                   (case project_name proj of
                      None \<Rightarrow> Inl KeyError
                    | Some n \<Rightarrow> Inr (''Project: '' @ n))))"

text \<open>
  The whole node: the topic of this turn, line 149, which builds the list of project
  names with \<^verbatim>\<open>p.get\<close> on every entry on every call and so raises on a bare string
  whatever the topic is, the model's reply (\<open>None\<close> when the call raises), and the
  trackers after a reply that contains "moving on".
\<close>

definition interviewer_node :: "string option \<Rightarrow> session \<Rightarrow> py_error + session" where
  "interviewer_node reply c =
     (case (if truthy (current_topic c) then Inr (fmt (current_topic c)) else node_select c) of
        Inl e \<Rightarrow> Inl e
      | Inr topic \<Rightarrow>
          if list_ex is_bare_string (discovered_projects c) then Inl AttributeError
          else
          (case reply of
             None \<Rightarrow> Inl ServiceUnavailable
           | Some reply_text \<Rightarrow>
               if contains ''moving on'' (lower reply_text)
               then (if topic \<noteq> []
                     then (if is_unverified_topic topic
                           then Inr (c\<lparr>covered_topics := covered_topics c @ [topic_name_of topic],
                                       unverified_asked := unverified_asked c + 1,
                                       current_topic := None\<rparr>)
                           else Inr (c\<lparr>covered_topics := covered_topics c @ [topic_name_of topic],
                                       projects_asked := projects_asked c + 1,
                                       current_topic := None\<rparr>))
                     else Inr (c\<lparr>current_topic := None\<rparr>))
               else Inr (c\<lparr>current_topic := Some topic\<rparr>)))"

text \<open>
  A run of the node. A node that raises returns no update, so the state stays as it was.
\<close>

definition node_turn :: "string option \<Rightarrow> session \<Rightarrow> session" where
  "node_turn reply c = (case interviewer_node reply c of Inl _ \<Rightarrow> c | Inr c' \<Rightarrow> c')"

fun node_run :: "session \<Rightarrow> string option list \<Rightarrow> session" where
  "node_run c [] = c"
| "node_run c (reply # replies) = node_run (node_turn reply c) replies"

text \<open>
  \<^verbatim>\<open>InterviewerAgent.process\<close> of \<^verbatim>\<open>src/agents/interviewer_agent.py\<close> in the same variant:
  the selection of lines 57-85 and the tracker update of lines 104-117.
\<close>

definition select_langgraph :: "session \<Rightarrow> session" where
  "select_langgraph c =
     (let c1 = c\<lparr>state := ''INTERVIEWING''\<rparr>;
          can_verify = unverified_asked c < length (unverified_skills c);
          must_do_project = (projects_asked c < unverified_asked c * 2 \<or> \<not> can_verify)
      in if can_verify \<and> \<not> must_do_project
         then c1\<lparr>current_topic :=
                   Some (''Unverified: '' @ unverified_skills c ! unverified_asked c)\<rparr>
         else (case filter (\<lambda>p. truthy (project_name p) \<and>
                                  fmt (project_name p) \<notin> set (covered_topics c))
                           (discovered_projects c) of
                 proj # _ \<Rightarrow>
                   c1\<lparr>current_topic := Some (''Project: '' @ fmt (project_name proj))\<rparr>
               | [] \<Rightarrow> c1))"

definition moving_on :: "string \<Rightarrow> bool" where
  "moving_on response =
     (contains ''moving on'' (lower response) \<or> contains ''another area'' (lower response))"

definition update_trackers :: "string \<Rightarrow> session \<Rightarrow> session" where
  "update_trackers response c =
     (if moving_on response
      then (case current_topic c of
              None \<Rightarrow> c
            | Some topic \<Rightarrow>
                if topic = [] then c\<lparr>current_topic := None\<rparr>
                else if is_unverified_topic topic
                then c\<lparr>covered_topics := covered_topics c @ [topic_name_of topic],
                       unverified_asked := unverified_asked c + 1, current_topic := None\<rparr>
                else c\<lparr>covered_topics := covered_topics c @ [topic_name_of topic],
                       projects_asked := projects_asked c + 1, current_topic := None\<rparr>)
      else c)"

definition process_langgraph :: "string option \<Rightarrow> session \<Rightarrow> session outcome" where
  "process_langgraph reply ctx =
     (let c = (if selector_runs ctx ctx then select_langgraph ctx else ctx)
      in case reply of
           None \<Rightarrow> ServiceError c
         | Some response \<Rightarrow> Completed (update_trackers response c))"

section \<open>The deep analysis of the research phase\<close>

text \<open>
  The output parser hands back whatever JSON value the model wrote, so the analysis works
  on untyped JSON. The numbers of a reply play no part and are integers here.
\<close>

datatype json =
  JNull | JBool bool | JNum int | JStr string | JList "json list"
| JDict "(string \<times> json) list"

text \<open>What the chain of prompt, model and parser does: the call fails, the text does not
  parse, or a JSON value comes back.\<close>

datatype chain_reply = LLMFailed | Unparsable | Parsed json

text \<open>\<^verbatim>\<open>data.get(key, default)\<close>, which only a dictionary has.\<close>

definition dict_get :: "json \<Rightarrow> string \<Rightarrow> json \<Rightarrow> py_error + json" where
  "dict_get d k dflt =
     (case d of
        JDict kvs \<Rightarrow> Inr (case map_of kvs k of Some v \<Rightarrow> v | None \<Rightarrow> dflt)
      | _ \<Rightarrow> Inl AttributeError)"

text \<open>\<^verbatim>\<open>for p in v\<close>: a list gives its elements, a dictionary its keys, a string its
  characters; nothing else can be iterated.\<close>

definition iterate :: "json \<Rightarrow> py_error + json list" where
  "iterate v =
     (case v of
        JList xs \<Rightarrow> Inr xs
      | JDict kvs \<Rightarrow> Inr (map (\<lambda>kv. JStr (fst kv)) kvs)
      | JStr s \<Rightarrow> Inr (map (\<lambda>ch. JStr [ch]) s)
      | _ \<Rightarrow> Inl TypeError)"

text \<open>Lines 213-217: what one entry of the model's list adds to the result.\<close>

definition normalize_entry :: "json \<Rightarrow> json list" where
  "normalize_entry p =
     (case p of
        JDict kvs \<Rightarrow> [JDict kvs]
      | JStr s \<Rightarrow> [JDict [(''name'', JStr s), (''description'', JStr [])]]
      | _ \<Rightarrow> [])"

text \<open>A repository as \<^verbatim>\<open>get_github_repos\<close> builds it.\<close>

record repo =
  repo_name :: string
  repo_description :: string

definition repo_json :: "repo \<Rightarrow> json" where
  "repo_json r = JDict [(''name'', JStr (repo_name r)), (''description'', JStr (repo_description r))]"

text \<open>Lines 201-222, the body of the \<^verbatim>\<open>try\<close>; a raise is an \<open>Inl\<close>.\<close>

definition analysis_try :: "repo list \<Rightarrow> chain_reply \<Rightarrow> py_error + (json \<times> json \<times> json list)" where
  "analysis_try real_projects reply =
     (case reply of
        LLMFailed \<Rightarrow> Inl ServiceUnavailable
      | Unparsable \<Rightarrow> Inl OutputParserException
      | Parsed data \<Rightarrow>
          (case dict_get data ''discovered_projects'' (JList []) of
             Inl e \<Rightarrow> Inl e
           | Inr final_projects \<Rightarrow>
               (case iterate final_projects of
                  Inl e \<Rightarrow> Inl e
                | Inr ps \<Rightarrow>
                    (let normalized_projects = concat (map normalize_entry ps);
                         projects = (if normalized_projects = [] \<and> real_projects \<noteq> []
                                     then map repo_json real_projects
                                     else normalized_projects)
                     in case dict_get data ''analysis'' (JStr []) of
                          Inl e \<Rightarrow> Inl e
                        | Inr analysis \<Rightarrow>
                            (case dict_get data ''unverified_skills'' (JList []) of
                               Inl e \<Rightarrow> Inl e
                             | Inr unverified \<Rightarrow> Inr (analysis, unverified, projects))))))"

text \<open>\<^verbatim>\<open>ResearchAgent._perform_deep_analysis\<close>: the \<^verbatim>\<open>except\<close> of lines 223-225 turns
  every raise of the body into the default result.\<close>

definition perform_deep_analysis :: "repo list \<Rightarrow> chain_reply \<Rightarrow> json \<times> json \<times> json list" where
  "perform_deep_analysis real_projects reply =
     (case analysis_try real_projects reply of
        Inl _ \<Rightarrow> (JStr ''I've analyzed your profiles and am ready to proceed.'', JList [],
                  map repo_json real_projects)
      | Inr result \<Rightarrow> result)"

text \<open>
  Lines 136-144 of \<^verbatim>\<open>ResearchAgent.process\<close>: the analysis is stored in the session and
  the agent reports the next state.
\<close>

record research_result =
  stored_unverified_skills :: json
  stored_discovered_projects :: "json list"
  next_state :: "string option"

definition research_analysis_turn :: "repo list \<Rightarrow> chain_reply \<Rightarrow> py_error + research_result" where
  "research_analysis_turn real_projects reply =
     (case perform_deep_analysis real_projects reply of
        (analysis, unverified, projects) \<Rightarrow>
          Inr \<lparr>stored_unverified_skills = unverified, stored_discovered_projects = projects,
               next_state = Some ''KPI_CALCULATION''\<rparr>)"

text \<open>
  The analysis step of \<^verbatim>\<open>research_node\<close> in \<^verbatim>\<open>src/graph.py\<close>, lines 76-87, as the new
  values of \<^verbatim>\<open>unverified_skills\<close> and \<^verbatim>\<open>discovered_projects\<close>; \<open>stored\<close> is the project
  list the state holds. The model is called before the \<^verbatim>\<open>try\<close>.
\<close>

definition research_node_analysis :: "json \<Rightarrow> chain_reply \<Rightarrow> py_error + (json \<times> json)" where
  "research_node_analysis stored reply =
     (case reply of
        LLMFailed \<Rightarrow> Inl ServiceUnavailable
      | Unparsable \<Rightarrow> Inr (JList [JStr ''Technical Depth''], stored)
      | Parsed data \<Rightarrow>
          (case dict_get data ''unverified_skills'' (JList []) of
             Inl _ \<Rightarrow> Inr (JList [JStr ''Technical Depth''], stored)
           | Inr unverified \<Rightarrow>
               (case dict_get data ''discovered_projects'' stored of
                  Inl _ \<Rightarrow> Inr (JList [JStr ''Technical Depth''], stored)
                | Inr projects \<Rightarrow> Inr (unverified, projects))))"

section \<open>The orchestrator and the chat endpoint\<close>

text \<open>
  \<^verbatim>\<open>Orchestrator.route\<close> dispatches a turn to one agent. What the collaborators of a turn
  do is given with the turn: whether the language-model call returns and with which text,
  and how the research agent's link checks turn out. The research agent asks for links
  (no next state), proceeds without an analysis, or stores an analysis; in the last two
  cases it reports \<^verbatim>\<open>KPI_CALCULATION\<close>. Its model call sits inside the \<^verbatim>\<open>try\<close> of the
  deep analysis, so it does not raise. The greeting, benchmark and scoring agents call the
  model once and leave the topic fields and the history as they are; the benchmark agent
  reports \<^verbatim>\<open>INTERVIEW_START\<close>. Of the agents the orchestrator imports, its own package
  holds the scoring agent; the greeting, research and interviewer agents are those of
  langchain-interview-agent and the benchmark agent is that of the LangGraph variant.
\<close>

datatype agent_name = GreetingBot | ResearchAgent | KPIAgent | InterviewerAgent | ScoreAgent

datatype research_outcome = NeedLinks | Proceed | Analysed "string list" "project list"

record turn_env =
  llm_ok :: bool
  llm_text :: string
  research :: research_outcome

definition research_agent :: "research_outcome \<Rightarrow> session \<Rightarrow> session \<times> string option" where
  "research_agent r ctx =
     (case r of
        NeedLinks \<Rightarrow> (ctx, None)
      | Proceed \<Rightarrow> (ctx, Some ''KPI_CALCULATION'')
      | Analysed unverified projects \<Rightarrow>
          (ctx\<lparr>unverified_skills := unverified, discovered_projects := projects\<rparr>,
           Some ''KPI_CALCULATION''))"

text \<open>An agent whose only effect on the session is one model call.\<close>

definition llm_only_agent :: "turn_env \<Rightarrow> session \<Rightarrow> session outcome" where
  "llm_only_agent e ctx = (if llm_ok e then Completed ctx else ServiceError ctx)"

definition greeting_requested :: "string \<Rightarrow> session \<Rightarrow> bool" where
  "greeting_requested user_input ctx =
     (let text = lower user_input;
          has_links = (contains ''github.com'' text \<or> contains ''linkedin.com'' text)
      in list_ex (\<lambda>greet. contains greet text) [''hi'', ''hello'', ''hey''] \<and>
         length (history ctx) < 3 \<and> \<not> has_links)"

definition route :: "turn_env \<Rightarrow> string \<Rightarrow> session \<Rightarrow> agent_name \<times> session outcome" where
  "route e user_input ctx =
     (if greeting_requested user_input ctx then (GreetingBot, llm_only_agent e ctx)
      else if state ctx = ''START'' \<or> state ctx = ''RESEARCH''
      then (case research_agent (research e) ctx of
              (c, None) \<Rightarrow> (ResearchAgent, Completed c)
            | (c, Some next) \<Rightarrow>
                (ResearchAgent, Completed (if next \<noteq> [] then c\<lparr>state := next\<rparr> else c)))
      else if state ctx = ''KPI_CALCULATION''
      then (KPIAgent, if llm_ok e then Completed (ctx\<lparr>state := ''INTERVIEW_START''\<rparr>)
                      else ServiceError ctx)
      else if state ctx = ''INTERVIEW_START'' \<or> state ctx = ''INTERVIEWING''
      then (if contains ''finish the interview'' (lower user_input) \<or> length (history ctx) > 25
            then (ScoreAgent, llm_only_agent e (ctx\<lparr>state := ''SCORING''\<rparr>))
            else (InterviewerAgent, process (llm_ok e) user_input (ctx\<lparr>state := ''INTERVIEWING''\<rparr>)))
      else if state ctx = ''SCORING'' then (ScoreAgent, llm_only_agent e ctx)
      else (InterviewerAgent, process (llm_ok e) user_input ctx))"

text \<open>The name an agent puts into its result.\<close>

definition agent_label :: "agent_name \<Rightarrow> string" where
  "agent_label a =
     (case a of
        GreetingBot \<Rightarrow> ''GreetingBot'' | ResearchAgent \<Rightarrow> ''ResearchAgent''
      | KPIAgent \<Rightarrow> ''KPIAgent'' | InterviewerAgent \<Rightarrow> ''InterviewerAgent''
      | ScoreAgent \<Rightarrow> ''ScoreAgent'')"

text \<open>
  \<^verbatim>\<open>chat_with_agent\<close> of \<^verbatim>\<open>app.py\<close>: the turn is routed; when the agent returns, the
  user's message and the answer are appended to the history; when it raises, the request
  fails and the stored dictionary stays as the agent left it.
\<close>

definition chat_with_agent :: "turn_env \<Rightarrow> string \<Rightarrow> session \<Rightarrow> session" where
  "chat_with_agent e user_message ctx =
     (case route e user_message ctx of
        (a, Completed c) \<Rightarrow>
          c\<lparr>history := history c @
                 [\<lparr>role = ''user'', content = user_message, agent = None\<rparr>,
                  \<lparr>role = ''assistant'', content = llm_text e, agent = Some (agent_label a)\<rparr>]\<rparr>
      | (a, ServiceError c) \<Rightarrow> c)"

text \<open>Lines 282-296 of \<^verbatim>\<open>app.py\<close>: the session created on first contact.\<close>

definition new_session :: "string list \<Rightarrow> session" where
  "new_session skills =
     \<lparr>state = ''START'', history = [], cv_skills = skills, unverified_skills = [],
      discovered_projects = [], current_topic = None, covered_topics = [], topic_turns = 0,
      unverified_asked = 0, projects_asked = 0\<rparr>"

fun chat :: "session \<Rightarrow> (turn_env \<times> string) list \<Rightarrow> session" where
  "chat c [] = c"
| "chat c ((e, user_message) # turns) = chat (chat_with_agent e user_message c) turns"

section \<open>Properties used in the statements\<close>

text \<open>
  The ratio kept by the interviewers while unverified skills remain: the project counter
  has not passed twice the skill counter, and is strictly below it while a topic of the
  project category is being discussed.
\<close>

definition ratio_inv :: "session \<Rightarrow> bool" where
  "ratio_inv c =
     ((unverified_asked c < length (unverified_skills c) \<longrightarrow>
         projects_asked c \<le> unverified_asked c * 2) \<and>
      (\<forall>t. current_topic c = Some t \<and> t \<noteq> [] \<and> \<not> is_unverified_topic t \<and>
           unverified_asked c < length (unverified_skills c) \<longrightarrow>
           projects_asked c < unverified_asked c * 2))"

text \<open>
  What holds of every session the chat endpoint stores: the state is one of the five
  the orchestrator assigns, and the later states come with the history of the turns
  that led to them.
\<close>

definition chat_inv :: "session \<Rightarrow> bool" where
  "chat_inv c =
     ((state c = ''START'' \<or> state c = ''KPI_CALCULATION'' \<or> state c = ''INTERVIEW_START'' \<or>
       state c = ''INTERVIEWING'' \<or> state c = ''SCORING'') \<and>
      (state c = ''KPI_CALCULATION'' \<longrightarrow> 2 \<le> length (history c)) \<and>
      (state c = ''INTERVIEW_START'' \<or> state c = ''INTERVIEWING'' \<or> state c = ''SCORING'' \<longrightarrow>
         4 \<le> length (history c)))"

text \<open>Shapes of a project entry in the analysis result.\<close>

definition is_record :: "json \<Rightarrow> bool" where
  "is_record p = (case p of JDict _ \<Rightarrow> True | _ \<Rightarrow> False)"

definition has_name :: "json \<Rightarrow> bool" where
  "has_name p = (case p of JDict kvs \<Rightarrow> map_of kvs ''name'' \<noteq> None | _ \<Rightarrow> False)"

text \<open>
  The conversion of the model's project entries in the words of the specification: an
  entry is usable when it is a record or a bare string, and a bare string becomes the
  record with that name and an empty description.
\<close>

definition usable :: "json \<Rightarrow> bool" where
  "usable p = (case p of JDict _ \<Rightarrow> True | JStr _ \<Rightarrow> True | _ \<Rightarrow> False)"

definition as_record :: "json \<Rightarrow> json" where
  "as_record p =
     (case p of
        JStr s \<Rightarrow> JDict [(''name'', JStr s), (''description'', JStr [])]
      | _ \<Rightarrow> p)"

text \<open>The default result of the deep analysis.\<close>

definition default_analysis :: "repo list \<Rightarrow> json \<times> json \<times> json list" where
  "default_analysis real_projects =
     (JStr ''I've analyzed your profiles and am ready to proceed.'', JList [],
      map repo_json real_projects)"

section \<open>Example sessions\<close>

text \<open>
  One unverified skill and two discovered projects, before the first interviewer turn.
\<close>

definition kubernetes_session :: session where
  "kubernetes_session =
     \<lparr>state = ''INTERVIEWING'', history = [], cv_skills = [''Python''],
      unverified_skills = [''Kubernetes''],
      discovered_projects = [ProjDict [(''name'', ''PayAPI'')], ProjDict [(''name'', ''Scraper'')]],
      current_topic = None, covered_topics = [], topic_turns = 0,
      unverified_asked = 0, projects_asked = 0\<rparr>"

text \<open>The same skill with a project entry that is a bare string.\<close>

definition bare_project_session :: session where
  "bare_project_session =
     \<lparr>state = ''INTERVIEWING'', history = [], cv_skills = [''Python''],
      unverified_skills = [''Kubernetes''], discovered_projects = [ProjStr ''Ledger''],
      current_topic = None, covered_topics = [], topic_turns = 0,
      unverified_asked = 0, projects_asked = 0\<rparr>"

text \<open>
  No unverified skill and one project whose name contains the word "unverified", before
  the first turn and with the project as the topic.
\<close>

definition unverified_payments_session :: session where
  "unverified_payments_session =
     \<lparr>state = ''INTERVIEWING'', history = [], cv_skills = [],
      unverified_skills = [],
      discovered_projects = [ProjDict [(''name'', ''Unverified Payments'')]],
      current_topic = None, covered_topics = [], topic_turns = 0,
      unverified_asked = 0, projects_asked = 0\<rparr>"

definition unverified_payments_topic :: session where
  "unverified_payments_topic =
     \<lparr>state = ''INTERVIEWING'', history = [], cv_skills = [],
      unverified_skills = [],
      discovered_projects = [ProjDict [(''name'', ''Unverified Payments'')]],
      current_topic = Some ''Project: Unverified Payments'', covered_topics = [],
      topic_turns = 1, unverified_asked = 0, projects_asked = 0\<rparr>"

text \<open>
  A state that no run from a fresh session reaches: a skill remains although a project
  has been retired before any skill.
\<close>

definition late_skill_session :: session where
  "late_skill_session =
     \<lparr>state = ''INTERVIEWING'', history = [], cv_skills = [''Python''],
      unverified_skills = [''Kubernetes''],
      discovered_projects = [ProjDict [(''name'', ''PayAPI'')], ProjDict [(''name'', ''Scraper'')]],
      current_topic = None, covered_topics = [''PayAPI''], topic_turns = 0,
      unverified_asked = 0, projects_asked = 1\<rparr>"

text \<open>No unverified skill and three projects.\<close>

definition projects_only_session :: session where
  "projects_only_session =
     \<lparr>state = ''INTERVIEWING'', history = [], cv_skills = [],
      unverified_skills = [],
      discovered_projects = [ProjDict [(''name'', ''PayAPI'')], ProjDict [(''name'', ''Scraper'')],
                             ProjStr ''Ledger''],
      current_topic = None, covered_topics = [], topic_turns = 0,
      unverified_asked = 0, projects_asked = 0\<rparr>"

text \<open>A greeting and then three turns on which the candidate asks to skip.\<close>

definition skipping_turns :: "(bool \<times> string) list" where
  "skipping_turns = [(True, ''hello''), (True, ''skip''), (True, ''skip''), (True, ''skip'')]"

text \<open>The second unverified skill has the name of a discovered project.\<close>

definition repeated_name_session :: session where
  "repeated_name_session =
     \<lparr>state = ''INTERVIEWING'', history = [], cv_skills = [],
      unverified_skills = [''Docker'', ''PayAPI''],
      discovered_projects = [ProjDict [(''name'', ''PayAPI'')], ProjDict [(''name'', ''Scraper'')]],
      current_topic = None, covered_topics = [], topic_turns = 0,
      unverified_asked = 0, projects_asked = 0\<rparr>"

text \<open>
  A single project whose name contains a colon and a space, before the first turn and
  after it has been retired once and selected again.
\<close>

definition colon_project_start :: session where
  "colon_project_start =
     \<lparr>state = ''INTERVIEWING'', history = [], cv_skills = [],
      unverified_skills = [], discovered_projects = [ProjStr ''API: v2''],
      current_topic = None, covered_topics = [], topic_turns = 0,
      unverified_asked = 0, projects_asked = 0\<rparr>"

definition colon_project_session :: session where
  "colon_project_session =
     \<lparr>state = ''INTERVIEWING'', history = [], cv_skills = [],
      unverified_skills = [], discovered_projects = [ProjStr ''API: v2''],
      current_topic = Some ''Project: API: v2'', covered_topics = [''v2''], topic_turns = 1,
      unverified_asked = 0, projects_asked = 1\<rparr>"

text \<open>
  A chat that skips the research, accepts the benchmarks and asks to finish; every
  model call returns.
\<close>

definition calm :: turn_env where
  "calm = \<lparr>llm_ok = True, llm_text = ''ok'', research = Proceed\<rparr>"

definition to_scoring :: "(turn_env \<times> string) list" where
  "to_scoring = [(calm, ''skip''), (calm, ''yes''), (calm, ''finish the interview'')]"

text \<open>A reply of the model whose only project entry is a record without a name.\<close>

definition nameless_reply :: chain_reply where
  "nameless_reply =
     Parsed (JDict [(''analysis'', JStr ''Looks solid.''),
                    (''unverified_skills'', JList [JStr ''Kubernetes'']),
                    (''discovered_projects'', JList [JDict [(''title'', JStr ''PayAPI'')]])])"

text \<open>A reply that mixes a record, a bare string and a number.\<close>

definition mixed_reply :: chain_reply where
  "mixed_reply =
     Parsed (JDict [(''discovered_projects'',
                     JList [JDict [(''name'', JStr ''PayAPI'')], JStr ''Scraper'', JNum 3])])"

definition one_repo :: "repo list" where
  "one_repo = [\<lparr>repo_name = ''priya/payapi'', repo_description = ''Payments service''\<rparr>]"

section \<open>Facts about the string operations\<close>

lemma lower_append: "lower (a @ b) = lower a @ lower b"
  by (simp add: lower_def)

lemma contains_prefix: "prefix sub s \<Longrightarrow> contains sub s"
  by (cases s) auto

lemma lower_Unverified: "lower ''Unverified: '' = ''unverified: ''"
  by (simp add: lower_def lower_char_def upper_letters_def lower_letters_def)

lemma unverified_prefix_is_unverified: "is_unverified_topic (''Unverified: '' @ skill)"
  unfolding is_unverified_topic_def lower_append lower_Unverified
  by (rule contains_prefix) simp

lemma contains_after_prefix:
  "contains ''unverified'' (''project: '' @ s) = contains ''unverified'' s"
  "contains ''unverified'' (''verified skill: '' @ s) = contains ''unverified'' s"
  by simp_all

lemma lower_Project: "lower ''Project: '' = ''project: ''"
  by (simp add: lower_def lower_char_def upper_letters_def lower_letters_def)

lemma lower_Verified_Skill: "lower ''Verified Skill: '' = ''verified skill: ''"
  by (simp add: lower_def lower_char_def upper_letters_def lower_letters_def)

lemma split_colon_space_nonempty: "split_colon_space acc s \<noteq> []"
  by (induction acc s rule: split_colon_space.induct) auto

section \<open>Facts about the langchain interviewer\<close>

lemma bump_fields:
  "covered_topics (bump_turns c) = covered_topics c"
  "unverified_asked (bump_turns c) = unverified_asked c"
  "projects_asked (bump_turns c) = projects_asked c"
  "current_topic (bump_turns c) = current_topic c"
  "normalized_covered (bump_turns c) = normalized_covered c"
  "state (bump_turns c) = state c"
  "history (bump_turns c) = history c"
  "unverified_skills (bump_turns c) = unverified_skills c"
  by (simp_all add: bump_turns_def normalized_covered_def)

lemma retire_fields:
  "current_topic (retire t c) = None"
  "topic_turns (retire t c) = 0"
  "state (retire t c) = state c"
  "history (retire t c) = history c"
  "unverified_skills (retire t c) = unverified_skills c"
  by (simp_all add: retire_def Let_def)

lemma retire_covered:
  "normalize_name (topic_name_of t) \<in> set (normalized_covered c) \<Longrightarrow>
   covered_topics (retire t c) = covered_topics c \<and>
   unverified_asked (retire t c) = unverified_asked c \<and>
   projects_asked (retire t c) = projects_asked c"
  by (simp add: retire_def Let_def)

lemma retire_new:
  "normalize_name (topic_name_of t) \<notin> set (normalized_covered c) \<Longrightarrow>
   covered_topics (retire t c) = covered_topics c @ [topic_name_of t] \<and>
   unverified_asked (retire t c) =
     (if is_unverified_topic t then unverified_asked c + 1 else unverified_asked c) \<and>
   projects_asked (retire t c) =
     (if is_unverified_topic t then projects_asked c else projects_asked c + 1)"
  by (simp add: retire_def Let_def)

lemma retire_marks: "normalize_name (topic_name_of t) \<in> set (normalized_covered (retire t c))"
  by (simp add: retire_def Let_def normalized_covered_def)

lemma select_fields:
  "topic_turns (select_topic c) = 1"
  "state (select_topic c) = ''INTERVIEWING''"
  "covered_topics (select_topic c) = covered_topics c"
  "unverified_asked (select_topic c) = unverified_asked c"
  "projects_asked (select_topic c) = projects_asked c"
  "unverified_skills (select_topic c) = unverified_skills c"
  "history (select_topic c) = history c"
  by (simp_all add: select_topic_def Let_def split: list.splits)

lemma force_transition_unknown:
  "current_topic ctx = Some t \<Longrightarrow> t \<noteq> [] \<Longrightarrow> is_unknown user_input \<Longrightarrow>
   force_transition user_input (bump_turns ctx)"
  by (simp add: force_transition_def bump_turns_def truthy_def)

lemma force_transition_limit:
  "current_topic ctx = Some t \<Longrightarrow> t \<noteq> [] \<Longrightarrow> \<not> is_unknown user_input \<Longrightarrow>
   force_transition user_input (bump_turns ctx) \<longleftrightarrow> max_turns t < topic_turns ctx + 1"
  by (simp add: force_transition_def bump_turns_def truthy_def)

lemma transition_active:
  "current_topic ctx = Some t \<Longrightarrow> t \<noteq> [] \<Longrightarrow>
   transition user_input ctx =
     (if force_transition user_input (bump_turns ctx) then retire t (bump_turns ctx)
      else bump_turns ctx)"
  by (simp add: transition_def bump_turns_def truthy_def Let_def)

lemma transition_no_topic:
  "\<not> truthy (current_topic ctx) \<Longrightarrow> transition user_input ctx = ctx"
  by (auto simp: transition_def bump_turns_def truthy_def force_transition_def
           split: option.splits)

lemma transition_state_history:
  "state (transition u c) = state c \<and> history (transition u c) = history c"
  by (auto simp: transition_def Let_def bump_fields retire_fields split: option.splits)

lemma process_no_topic:
  "\<not> truthy (current_topic ctx) \<Longrightarrow>
   process True user_input ctx = Completed (select_topic ctx)"
  by (simp add: process_def transition_no_topic selector_runs_def Let_def)

lemma process_state_history:
  "history (after_turn (process ok u c)) = history c \<and>
   (state (after_turn (process ok u c)) = state c \<or>
    state (after_turn (process ok u c)) = ''INTERVIEWING'')"
  by (simp add: process_def Let_def select_fields transition_state_history)

lemma select_topic_unverified_iff:
  assumes "\<not> truthy (current_topic c)"
  shows "(\<exists>skill. current_topic (select_topic c) = Some (''Unverified: '' @ skill)) \<longleftrightarrow>
         (unverified_asked c < length (unverified_skills c) \<and>
          projects_asked c = unverified_asked c * 2)"
  using assms
  by (auto simp: select_topic_def pick_unverified_def Let_def truthy_def
           split: list.splits option.splits)

lemma select_topic_picks:
  "unverified_asked c < length (unverified_skills c) \<Longrightarrow>
   projects_asked c = unverified_asked c * 2 \<Longrightarrow>
   current_topic (select_topic c) =
     Some (''Unverified: '' @ unverified_skills c ! unverified_asked c)"
  by (simp add: select_topic_def pick_unverified_def)

lemma node_select_unverified_iff:
  "(\<exists>skill. node_select c = Inr (''Unverified: '' @ skill)) \<longleftrightarrow>
   (unverified_asked c < length (unverified_skills c) \<and>
    unverified_asked c * 2 \<le> projects_asked c)"
  by (auto simp: node_select_def Let_def split: list.splits option.splits)

lemma node_select_picks:
  "unverified_asked c < length (unverified_skills c) \<Longrightarrow>
   unverified_asked c * 2 \<le> projects_asked c \<Longrightarrow>
   node_select c = Inr (''Unverified: '' @ unverified_skills c ! unverified_asked c)"
  by (auto simp: node_select_def Let_def)

subsection \<open>The ratio while unverified skills remain\<close>

lemma ratio_inv_fresh: "fresh c \<Longrightarrow> ratio_inv c"
  by (simp add: fresh_def ratio_inv_def)

lemma ratio_inv_bump: "ratio_inv c \<Longrightarrow> ratio_inv (bump_turns c)"
  by (simp add: ratio_inv_def bump_fields)

lemma ratio_inv_retire:
  assumes "ratio_inv c" and "current_topic c = Some t" and "t \<noteq> []"
  shows "ratio_inv (retire t c)"
proof (cases "normalize_name (topic_name_of t) \<in> set (normalized_covered c)")
  case True
  with assms(1) show ?thesis
    using retire_covered[of t c] by (simp add: ratio_inv_def retire_fields)
next
  case False
  with assms show ?thesis
    using retire_new[of t c] by (auto simp: ratio_inv_def retire_fields)
qed

lemma ratio_inv_transition:
  assumes inv: "ratio_inv c"
  shows "ratio_inv (transition user_input c)"
proof (cases "current_topic c")
  case None
  then show ?thesis using inv by (simp add: transition_no_topic truthy_def)
next
  case (Some t)
  show ?thesis
  proof (cases "t = []")
    case True
    with Some show ?thesis using inv by (simp add: transition_no_topic truthy_def)
  next
    case False
    have "ratio_inv (retire t (bump_turns c))"
      using ratio_inv_bump[OF inv] Some False
      by (intro ratio_inv_retire) (simp_all add: bump_fields)
    with Some False show ?thesis
      using ratio_inv_bump[OF inv] by (simp add: transition_active)
  qed
qed

lemma ratio_inv_select:
  assumes inv: "ratio_inv c"
  shows "ratio_inv (select_topic c)"
proof (cases "pick_unverified c")
  case True
  then have "current_topic (select_topic c) =
      Some (''Unverified: '' @ unverified_skills c ! unverified_asked c)"
    by (simp add: select_topic_def)
  with inv show ?thesis
    using unverified_prefix_is_unverified[of "unverified_skills c ! unverified_asked c"]
    by (auto simp: ratio_inv_def select_fields)
next
  case False
  with inv have "unverified_asked c < length (unverified_skills c) \<longrightarrow>
      projects_asked c < unverified_asked c * 2"
    by (auto simp: ratio_inv_def pick_unverified_def)
  with inv show ?thesis
    by (simp add: ratio_inv_def select_fields)
qed

lemma ratio_inv_process:
  "ratio_inv c \<Longrightarrow> ratio_inv (after_turn (process True user_input c))"
  by (simp add: process_def Let_def ratio_inv_transition ratio_inv_select)

lemma ratio_inv_interview:
  "list_all fst turns \<Longrightarrow> ratio_inv c \<Longrightarrow> ratio_inv (interview c turns)"
proof (induction turns arbitrary: c)
  case Nil
  then show ?case by simp
next
  case (Cons turn turns)
  obtain ok u where turn: "turn = (ok, u)" by (cases turn)
  with Cons.prems have ok by simp
  with Cons turn show ?case by (simp add: ratio_inv_process)
qed

subsection \<open>The turn count after a completed turn\<close>

lemma process_turns_positive:
  assumes p: "process True user_input c = Completed c'"
  shows "1 \<le> topic_turns c'"
proof (cases "selector_runs c (transition user_input c)")
  case True
  with p show ?thesis by (auto simp: process_def Let_def select_fields)
next
  case False
  then have tr: "truthy (current_topic (transition user_input c))"
    by (simp add: selector_runs_def)
  from p False have c': "c' = transition user_input c"
    by (simp add: process_def Let_def)
  from tr show ?thesis unfolding c'
    by (auto simp: transition_def Let_def bump_turns_def truthy_def retire_fields
             split: option.splits if_splits)
qed

lemma interview_turns_positive:
  "list_all fst turns \<Longrightarrow> turns \<noteq> [] \<Longrightarrow> 1 \<le> topic_turns (interview c turns)"
proof (induction turns arbitrary: c)
  case Nil
  then show ?case by simp
next
  case (Cons turn turns)
  obtain ok u where turn: "turn = (ok, u)" by (cases turn)
  with Cons.prems have ok: ok and rest: "list_all fst turns" by simp_all
  obtain c' where c': "process True u c = Completed c'"
    by (simp add: process_def Let_def)
  show ?case
  proof (cases "turns = []")
    case True
    with turn ok c' process_turns_positive[OF c'] show ?thesis by simp
  next
    case False
    with Cons.IH[OF rest False] turn ok show ?thesis by simp
  qed
qed

subsection \<open>No normalized name is recorded twice\<close>

lemma retire_distinct:
  "distinct (normalized_covered c) \<Longrightarrow> distinct (normalized_covered (retire t c))"
  by (simp add: retire_def Let_def normalized_covered_def)

lemma transition_distinct:
  "distinct (normalized_covered c) \<Longrightarrow> distinct (normalized_covered (transition u c))"
  by (auto simp: transition_def Let_def retire_distinct bump_fields split: option.splits)

lemma process_distinct:
  "distinct (normalized_covered c) \<Longrightarrow>
   distinct (normalized_covered (after_turn (process ok u c)))"
  using transition_distinct[of c u]
  by (simp add: process_def Let_def normalized_covered_def select_fields)

lemma covered_topics_distinct:
  "fresh c \<Longrightarrow> distinct (normalized_covered (interview c turns))"
proof -
  have "distinct (normalized_covered c) \<Longrightarrow> distinct (normalized_covered (interview c turns))"
  proof (induction turns arbitrary: c)
    case Nil
    then show ?case by simp
  next
    case (Cons turn turns)
    obtain ok u where "turn = (ok, u)" by (cases turn)
    with Cons show ?case by (simp add: process_distinct)
  qed
  moreover assume "fresh c"
  ultimately show ?thesis by (simp add: fresh_def normalized_covered_def)
qed

section \<open>Facts about the LangGraph interviewer\<close>

lemma node_select_due:
  assumes "node_select c = Inr topic" and "\<not> is_unverified_topic topic"
    and "unverified_asked c < length (unverified_skills c)"
  shows "projects_asked c < unverified_asked c * 2"
proof (rule ccontr)
  assume "\<not> projects_asked c < unverified_asked c * 2"
  with assms(3) have "node_select c =
      Inr (''Unverified: '' @ unverified_skills c ! unverified_asked c)"
    by (simp add: node_select_picks)
  with assms(1,2) unverified_prefix_is_unverified[of "unverified_skills c ! unverified_asked c"]
  show False by simp
qed

lemma ratio_inv_node_turn:
  assumes inv: "ratio_inv c"
  shows "ratio_inv (node_turn reply c)"
proof (cases "if truthy (current_topic c) then Inr (fmt (current_topic c)) else node_select c")
  case (Inl e)
  then show ?thesis using inv
    by (simp add: node_turn_def interviewer_node_def)
next
  case (Inr topic)
  have due: "projects_asked c < unverified_asked c * 2"
    if nu: "\<not> is_unverified_topic topic"
      and cv: "unverified_asked c < length (unverified_skills c)"
  proof (cases "truthy (current_topic c)")
    case True
    with Inr have "current_topic c = Some topic \<and> topic \<noteq> []"
      by (auto simp: truthy_def fmt_def split: option.splits)
    with inv nu cv show ?thesis by (simp add: ratio_inv_def)
  next
    case False
    with Inr have "node_select c = Inr topic" by simp
    then show ?thesis using nu cv by (rule node_select_due)
  qed
  show ?thesis
  proof (cases "list_ex is_bare_string (discovered_projects c)")
    case True
    with Inr show ?thesis using inv
      by (simp add: node_turn_def interviewer_node_def)
  next
    case nb: False
    show ?thesis
    proof (cases reply)
      case None
      with Inr nb show ?thesis using inv
        by (simp add: node_turn_def interviewer_node_def)
    next
      case (Some reply_text)
      show ?thesis
        using inv due nb
        by (auto simp: node_turn_def interviewer_node_def Inr Some ratio_inv_def)
    qed
  qed
qed

lemma ratio_inv_node_run: "ratio_inv c \<Longrightarrow> ratio_inv (node_run c replies)"
  by (induction replies arbitrary: c) (simp_all add: ratio_inv_node_turn)

lemma node_select_reachable_iff:
  assumes "fresh c0"
  shows "(\<exists>skill. node_select (node_run c0 replies) = Inr (''Unverified: '' @ skill)) \<longleftrightarrow>
         (unverified_asked (node_run c0 replies) <
            length (unverified_skills (node_run c0 replies)) \<and>
          projects_asked (node_run c0 replies) = unverified_asked (node_run c0 replies) * 2)"
proof -
  have "ratio_inv (node_run c0 replies)"
    using assms by (intro ratio_inv_node_run ratio_inv_fresh)
  then show ?thesis
    using node_select_unverified_iff[of "node_run c0 replies"]
    by (auto simp: ratio_inv_def)
qed

lemma interviewer_node_no_topic:
  assumes "\<not> truthy (current_topic c)" and "\<not> contains ''moving on'' (lower reply_text)"
  shows "interviewer_node (Some reply_text) c =
           (case node_select c of
              Inl e \<Rightarrow> Inl e
            | Inr topic \<Rightarrow>
                if list_ex is_bare_string (discovered_projects c) then Inl AttributeError
                else Inr (c\<lparr>current_topic := Some topic\<rparr>))"
  using assms by (simp add: interviewer_node_def split: sum.splits)

lemma update_trackers_counts:
  assumes "current_topic c = Some t" and "t \<noteq> []" and "moving_on response"
  shows "covered_topics (update_trackers response c) = covered_topics c @ [topic_name_of t] \<and>
         unverified_asked (update_trackers response c) + projects_asked (update_trackers response c) =
           unverified_asked c + projects_asked c + 1"
  using assms by (simp add: update_trackers_def)

section \<open>Facts about the deep analysis\<close>

lemma concat_normalize_entry:
  "concat (map normalize_entry ps) = map as_record (filter usable ps)"
  by (induction ps) (auto simp: normalize_entry_def usable_def as_record_def split: json.splits)

lemma repo_json_record: "is_record (repo_json r) \<and> has_name (repo_json r)"
  by (simp add: repo_json_def is_record_def has_name_def)

lemma as_record_usable: "usable p \<Longrightarrow> is_record (as_record p)"
  by (cases p) (simp_all add: usable_def as_record_def is_record_def)

lemma records_of_usable: "\<forall>p \<in> set (map as_record (filter usable items)). is_record p"
  by (simp add: as_record_usable)

lemma records_of_repos: "\<forall>p \<in> set (map repo_json real_projects). is_record p"
  by (simp add: repo_json_record)

lemma analysis_raise_recovered:
  "analysis_try real_projects reply = Inl e \<Longrightarrow>
   perform_deep_analysis real_projects reply = default_analysis real_projects"
  by (simp add: perform_deep_analysis_def default_analysis_def)

lemma analysis_try_projects:
  assumes "analysis_try real_projects reply = Inr (a, u, projects)"
  shows "\<exists>data ps. reply = Parsed data \<and>
           dict_get data ''discovered_projects'' (JList []) = Inr ps \<and>
           (\<exists>items. iterate ps = Inr items \<and>
              projects = (if filter usable items = [] \<and> real_projects \<noteq> []
                          then map repo_json real_projects
                          else map as_record (filter usable items)))"
  using assms
  by (auto simp: analysis_try_def Let_def concat_normalize_entry
           split: chain_reply.splits sum.splits if_splits)

lemma analysis_projects_records:
  assumes "perform_deep_analysis real_projects reply = (a, u, projects)"
  shows "\<forall>p \<in> set projects. is_record p"
proof (cases "analysis_try real_projects reply")
  case (Inl e)
  with assms have "projects = map repo_json real_projects"
    by (simp add: perform_deep_analysis_def)
  then show ?thesis using records_of_repos by simp
next
  case (Inr r)
  with assms have "analysis_try real_projects reply = Inr (a, u, projects)"
    by (simp add: perform_deep_analysis_def)
  from analysis_try_projects[OF this] obtain items where
    "projects = (if filter usable items = [] \<and> real_projects \<noteq> []
                 then map repo_json real_projects else map as_record (filter usable items))"
    by blast
  then show ?thesis
    using records_of_repos[of real_projects] records_of_usable[of items]
    by (simp split: if_splits)
qed

lemma analysis_of_list:
  assumes "dict_get data ''discovered_projects'' (JList []) = Inr (JList items)"
  shows "snd (snd (perform_deep_analysis real_projects (Parsed data))) =
           (if filter usable items = [] then map repo_json real_projects
            else map as_record (filter usable items))"
proof -
  from assms obtain kvs where d: "data = JDict kvs"
    by (cases data) (simp_all add: dict_get_def)
  with assms show ?thesis
    by (auto simp: perform_deep_analysis_def analysis_try_def dict_get_def iterate_def Let_def
                   concat_normalize_entry)
qed

section \<open>Facts about the orchestrator\<close>

lemma chat_inv_new: "chat_inv (new_session skills)"
  by (simp add: chat_inv_def new_session_def)

lemma route_scoring:
  assumes "state c = ''SCORING''" and "3 \<le> length (history c)"
  shows "route e u c = (ScoreAgent, llm_only_agent e c)"
  using assms by (simp add: route_def greeting_requested_def Let_def)

lemma chat_inv_step:
  assumes inv: "chat_inv c"
  shows "chat_inv (chat_with_agent e u c)"
proof (cases "greeting_requested u c")
  case True
  then have "length (history c) < 3" by (simp add: greeting_requested_def Let_def)
  with inv True show ?thesis
    by (auto simp: chat_with_agent_def route_def llm_only_agent_def chat_inv_def)
next
  case ng: False
  consider (research) "state c = ''START''"
    | (kpi) "state c = ''KPI_CALCULATION''"
    | (interview) "state c = ''INTERVIEW_START'' \<or> state c = ''INTERVIEWING''"
    | (scoring) "state c = ''SCORING''"
    using inv by (auto simp: chat_inv_def)
  then show ?thesis
  proof cases
    case research
    with ng show ?thesis
      by (auto simp: chat_with_agent_def route_def research_agent_def chat_inv_def
               split: research_outcome.splits)
  next
    case kpi
    with ng inv show ?thesis
      by (auto simp: chat_with_agent_def route_def chat_inv_def)
  next
    case interview
    then have len: "4 \<le> length (history c)" using inv by (auto simp: chat_inv_def)
    show ?thesis
    proof (cases "contains ''finish the interview'' (lower u) \<or> length (history c) > 25")
      case True
      with ng interview len show ?thesis
        by (auto simp: chat_with_agent_def route_def llm_only_agent_def chat_inv_def)
    next
      case False
      let ?c = "c\<lparr>state := ''INTERVIEWING''\<rparr>"
      from ng interview False
      have r: "route e u c = (InterviewerAgent, process (llm_ok e) u ?c)"
        by (auto simp: route_def)
      have sh: "history (after_turn (process (llm_ok e) u ?c)) = history c \<and>
                state (after_turn (process (llm_ok e) u ?c)) = ''INTERVIEWING''"
        using process_state_history[of "llm_ok e" u ?c] by auto
      show ?thesis
      proof (cases "process (llm_ok e) u ?c")
        case (Completed c')
        with r sh len show ?thesis by (simp add: chat_with_agent_def chat_inv_def)
      next
        case (ServiceError c')
        with r sh len show ?thesis by (simp add: chat_with_agent_def chat_inv_def)
      qed
    qed
  next
    case scoring
    then have len: "4 \<le> length (history c)" using inv by (auto simp: chat_inv_def)
    then have "route e u c = (ScoreAgent, llm_only_agent e c)"
      using scoring by (intro route_scoring) simp_all
    with scoring len show ?thesis
      by (auto simp: chat_with_agent_def llm_only_agent_def chat_inv_def)
  qed
qed

lemma chat_inv_chat: "chat_inv c \<Longrightarrow> chat_inv (chat c turns)"
proof (induction turns arbitrary: c)
  case Nil
  then show ?case by simp
next
  case (Cons turn turns)
  obtain e u where "turn = (e, u)" by (cases turn)
  with Cons show ?case by (simp add: chat_inv_step)
qed

lemma scoring_step:
  assumes "chat_inv c" and "state c = ''SCORING''"
  shows "fst (route e u c) = ScoreAgent \<and> state (chat_with_agent e u c) = ''SCORING''"
proof -
  from assms have "3 \<le> length (history c)" by (simp add: chat_inv_def)
  with assms(2) have "route e u c = (ScoreAgent, llm_only_agent e c)" by (rule route_scoring)
  with assms(2) show ?thesis by (simp add: chat_with_agent_def llm_only_agent_def)
qed

lemma scoring_forever:
  "chat_inv c \<Longrightarrow> state c = ''SCORING'' \<Longrightarrow> state (chat c later) = ''SCORING''"
proof (induction later arbitrary: c)
  case Nil
  then show ?case by simp
next
  case (Cons turn later)
  obtain e u where "turn = (e, u)" by (cases turn)
  with Cons show ?case by (simp add: chat_inv_step scoring_step)
qed

section \<open>The claims\<close>

subsection \<open>C1: when the selector activates an unverified skill\<close>

text \<open>
  C1. On every turn on which the topic selector runs with no active topic, it activates
  an unverified-skill topic if and only if \<open>unverified_asked < len(unverified_skills)\<close>
  and \<open>projects_asked = unverified_asked * 2\<close>, and the skill it activates is
  \<open>unverified_skills[unverified_asked]\<close>. For the langchain interviewer \<open>c\<close> is any
  session with no active topic, and a completed turn stores the selector's choice. For
  \<^verbatim>\<open>interviewer_node\<close> of the LangGraph variant \<open>g\<close> is any state with no active topic
  that a run of the node reaches from a fresh one; its gate is written
  \<open>projects_asked \<ge> unverified_asked * 2\<close>, which on these states is the same as
  equality. On a reply that does not say "moving on" the node stores the selector's
  choice, unless the selector raises or a project entry is a bare string, on which
  line 149 raises.
\<close>

theorem unverified_activation:
  assumes "\<not> truthy (current_topic c)"
    and "fresh g0" and "g = node_run g0 replies" and "\<not> truthy (current_topic g)"
    and "\<not> contains ''moving on'' (lower reply_text)"
  shows "process True user_input c = Completed (select_topic c) \<and>
         ((\<exists>skill. current_topic (select_topic c) = Some (''Unverified: '' @ skill)) \<longleftrightarrow>
            (unverified_asked c < length (unverified_skills c) \<and>
             projects_asked c = unverified_asked c * 2)) \<and>
         (\<forall>skill. current_topic (select_topic c) = Some (''Unverified: '' @ skill) \<longrightarrow>
                  skill = unverified_skills c ! unverified_asked c) \<and>
         interviewer_node (Some reply_text) g =
           (case node_select g of
              Inl e \<Rightarrow> Inl e
            | Inr topic \<Rightarrow>
                if list_ex is_bare_string (discovered_projects g) then Inl AttributeError
                else Inr (g\<lparr>current_topic := Some topic\<rparr>)) \<and>
         ((\<exists>skill. node_select g = Inr (''Unverified: '' @ skill)) \<longleftrightarrow>
            (unverified_asked g < length (unverified_skills g) \<and>
             projects_asked g = unverified_asked g * 2)) \<and>
         ((\<exists>skill. node_select g = Inr (''Unverified: '' @ skill)) \<longleftrightarrow>
            (unverified_asked g < length (unverified_skills g) \<and>
             unverified_asked g * 2 \<le> projects_asked g)) \<and>
         (\<forall>skill. node_select g = Inr (''Unverified: '' @ skill) \<longrightarrow>
                  skill = unverified_skills g ! unverified_asked g)"
proof -
  have a: "process True user_input c = Completed (select_topic c)"
    using assms(1) by (rule process_no_topic)
  have b: "(\<exists>skill. current_topic (select_topic c) = Some (''Unverified: '' @ skill)) \<longleftrightarrow>
            (unverified_asked c < length (unverified_skills c) \<and>
             projects_asked c = unverified_asked c * 2)"
    using assms(1) by (rule select_topic_unverified_iff)
  have d: "skill = unverified_skills c ! unverified_asked c"
    if s: "current_topic (select_topic c) = Some (''Unverified: '' @ skill)" for skill
  proof -
    from s have "unverified_asked c < length (unverified_skills c) \<and>
               projects_asked c = unverified_asked c * 2"
      using b by blast
    then have "current_topic (select_topic c) =
        Some (''Unverified: '' @ unverified_skills c ! unverified_asked c)"
      by (simp add: select_topic_picks)
    with s show ?thesis by simp
  qed
  have n: "interviewer_node (Some reply_text) g =
           (case node_select g of
              Inl e \<Rightarrow> Inl e
            | Inr topic \<Rightarrow>
                if list_ex is_bare_string (discovered_projects g) then Inl AttributeError
                else Inr (g\<lparr>current_topic := Some topic\<rparr>))"
    using assms(4,5) by (rule interviewer_node_no_topic)
  have g: "(\<exists>skill. node_select g = Inr (''Unverified: '' @ skill)) \<longleftrightarrow>
            (unverified_asked g < length (unverified_skills g) \<and>
             projects_asked g = unverified_asked g * 2)"
    unfolding assms(3) using assms(2) by (rule node_select_reachable_iff)
  have g': "(\<exists>skill. node_select g = Inr (''Unverified: '' @ skill)) \<longleftrightarrow>
            (unverified_asked g < length (unverified_skills g) \<and>
             unverified_asked g * 2 \<le> projects_asked g)"
    by (rule node_select_unverified_iff)
  have h: "skill = unverified_skills g ! unverified_asked g"
    if s: "node_select g = Inr (''Unverified: '' @ skill)" for skill
  proof -
    from s have "unverified_asked g < length (unverified_skills g) \<and>
               unverified_asked g * 2 \<le> projects_asked g"
      using g' by blast
    then have "node_select g =
        Inr (''Unverified: '' @ unverified_skills g ! unverified_asked g)"
      by (simp add: node_select_picks)
    with s show ?thesis by simp
  qed
  show ?thesis
    using a b d n g g' h by (intro conjI allI impI)
qed

text \<open>
  The theorem at the session with one unverified skill, before the first turn and, for
  the node, after a first reply: both selectors activate Kubernetes, and once it is
  retired the node's selector turns to a project, which the node stores.
\<close>

theorem unverified_activation_witness:
  "\<not> truthy (current_topic kubernetes_session) \<and> fresh kubernetes_session \<and>
   \<not> truthy (current_topic (node_run kubernetes_session [Some ''Moving on.''])) \<and>
   \<not> contains ''moving on'' (lower ''Which trade-offs did you face?'') \<and>
   process True ''hello'' kubernetes_session = Completed (select_topic kubernetes_session) \<and>
   current_topic (select_topic kubernetes_session) = Some ''Unverified: Kubernetes'' \<and>
   node_select kubernetes_session = Inr ''Unverified: Kubernetes'' \<and>
   unverified_asked (node_run kubernetes_session [Some ''Moving on.'']) = 1 \<and>
   node_select (node_run kubernetes_session [Some ''Moving on.'']) = Inr ''Project: PayAPI'' \<and>
   interviewer_node (Some ''Which trade-offs did you face?'')
       (node_run kubernetes_session [Some ''Moving on.'']) =
     Inr ((node_run kubernetes_session [Some ''Moving on.''])
            \<lparr>current_topic := Some ''Project: PayAPI''\<rparr>)"
proof -
  have h1: "\<not> truthy (current_topic kubernetes_session)" by code_simp
  have h2: "fresh kubernetes_session" by code_simp
  have h4: "\<not> truthy (current_topic (node_run kubernetes_session [Some ''Moving on.'']))"
    by code_simp
  have h5: "\<not> contains ''moving on'' (lower ''Which trade-offs did you face?'')"
    by code_simp
  have s: "node_select (node_run kubernetes_session [Some ''Moving on.'']) = Inr ''Project: PayAPI''"
    by code_simp
  have nb: "\<not> list_ex is_bare_string
              (discovered_projects (node_run kubernetes_session [Some ''Moving on.'']))"
    by code_simp
  note t = unverified_activation[OF h1 h2 refl h4 h5, of "''hello''"]
  from t have "process True ''hello'' kubernetes_session = Completed (select_topic kubernetes_session)"
    by (rule conjunct1)
  moreover from t s nb
  have "interviewer_node (Some ''Which trade-offs did you face?'')
          (node_run kubernetes_session [Some ''Moving on.'']) =
        Inr ((node_run kubernetes_session [Some ''Moving on.''])
               \<lparr>current_topic := Some ''Project: PayAPI''\<rparr>)"
    by simp
  moreover have "current_topic (select_topic kubernetes_session) = Some ''Unverified: Kubernetes''"
    by code_simp
  moreover have "node_select kubernetes_session = Inr ''Unverified: Kubernetes''"
    by code_simp
  moreover have "unverified_asked (node_run kubernetes_session [Some ''Moving on.'']) = 1"
    by code_simp
  ultimately show ?thesis using h1 h2 h4 h5 s by simp
qed

text \<open>
  With a project entry that is a bare string the node raises although its selector has
  chosen the unverified skill, and the state of the run stays as it was.
\<close>

lemma node_raises_on_bare_string:
  "node_select bare_project_session = Inr ''Unverified: Kubernetes'' \<and>
   interviewer_node (Some ''Tell me more.'') bare_project_session = Inl AttributeError \<and>
   node_run bare_project_session [Some ''Tell me more.''] = bare_project_session"
  by code_simp

text \<open>
  The gate of \<^verbatim>\<open>interviewer_node\<close> is \<open>projects_asked \<ge> unverified_asked * 2\<close>, which the
  ratio kept by every run makes the same as equality. On a state outside the runs, with
  a project retired before any skill, the node activates the skill while the langchain
  selector turns to the next project.
\<close>

lemma late_skill_outside_runs:
  assumes "fresh c0"
  shows "node_run c0 replies \<noteq> late_skill_session \<and>
         (list_all fst turns \<longrightarrow> interview c0 turns \<noteq> late_skill_session)"
proof -
  have out: "\<not> ratio_inv late_skill_session"
    by (simp add: ratio_inv_def late_skill_session_def)
  have "ratio_inv (node_run c0 replies)"
    using assms by (intro ratio_inv_node_run ratio_inv_fresh)
  moreover have "ratio_inv (interview c0 turns)" if "list_all fst turns"
    using that assms by (intro ratio_inv_interview ratio_inv_fresh)
  ultimately show ?thesis using out by auto
qed

lemma selectors_differ_outside_runs:
  "projects_asked late_skill_session \<noteq> unverified_asked late_skill_session * 2 \<and>
   node_select late_skill_session = Inr ''Unverified: Kubernetes'' \<and>
   current_topic (select_topic late_skill_session) = Some ''Project: Scraper''"
  by code_simp

subsection \<open>C2: the ratio of projects to unverified skills\<close>

text \<open>
  C2, as amended. In every session reached from a fresh one by completed interviewer
  turns, as long as an unverified skill remains to be asked
  (\<open>unverified_asked < len(unverified_skills)\<close>), \<open>projects_asked\<close> does not exceed
  \<open>unverified_asked * 2\<close>, and so not \<open>unverified_asked * 2 + 2\<close> either. Once no
  unverified skill remains the bound is not kept.
\<close>

theorem ratio_bound:
  assumes "fresh c0" and "list_all fst turns"
    and "unverified_asked (interview c0 turns) < length (unverified_skills (interview c0 turns))"
  shows "projects_asked (interview c0 turns) \<le> unverified_asked (interview c0 turns) * 2"
  using ratio_inv_interview[OF assms(2) ratio_inv_fresh[OF assms(1)]] assms(3)
  by (simp add: ratio_inv_def)

text \<open>
  The theorem after four turns of a session with two unverified skills: one skill and
  two projects have been retired, one skill remains.
\<close>

theorem ratio_bound_witness:
  "fresh repeated_name_session \<and> list_all fst skipping_turns \<and>
   unverified_asked (interview repeated_name_session skipping_turns) = 1 \<and>
   length (unverified_skills (interview repeated_name_session skipping_turns)) = 2 \<and>
   projects_asked (interview repeated_name_session skipping_turns) \<le>
     unverified_asked (interview repeated_name_session skipping_turns) * 2"
proof -
  have f: "fresh repeated_name_session" by code_simp
  have l: "list_all fst skipping_turns" by code_simp
  have u: "unverified_asked (interview repeated_name_session skipping_turns) = 1"
    by code_simp
  have n: "length (unverified_skills (interview repeated_name_session skipping_turns)) = 2"
    by code_simp
  have "unverified_asked (interview repeated_name_session skipping_turns) <
        length (unverified_skills (interview repeated_name_session skipping_turns))"
    using u n by simp
  from ratio_bound[OF f l this] f l u n show ?thesis by simp
qed

text \<open>
  C2 as stated fails when there is no unverified skill: after a greeting and three
  skipped projects \<open>projects_asked\<close> is 3 and \<open>unverified_asked * 2 + 2\<close> is 2.
\<close>

theorem ratio_bound_counterexample:
  "fresh projects_only_session \<and> list_all fst skipping_turns \<and>
   \<not> (projects_asked (interview projects_only_session skipping_turns) \<le>
        unverified_asked (interview projects_only_session skipping_turns) * 2 + 2)"
  by code_simp

subsection \<open>C3: no topic is selected twice\<close>

text \<open>
  C3. Claimed: the covered topics hold no normalized name twice, and the selector never
  activates a topic whose normalized name is already covered, the unverified-skill
  branch included. The first half holds (\<open>covered_topics_distinct\<close>). The second half
  fails in the unverified-skill branch, which takes \<open>unverified_skills[unverified_asked]\<close>
  without looking at the covered topics, as the project and verified-skill branches
  do: when the second unverified skill has the name of a project already covered, it is
  activated all the same, and since retiring it changes no counter, every later skip
  activates it again.
\<close>

theorem covered_skill_reselected:
  "fresh repeated_name_session \<and>
   covered_topics (interview repeated_name_session skipping_turns) =
     [''Docker'', ''PayAPI'', ''Scraper''] \<and>
   current_topic (interview repeated_name_session skipping_turns) = Some ''Unverified: PayAPI'' \<and>
   normalize_name ''PayAPI'' \<in>
     set (normalized_covered (interview repeated_name_session skipping_turns)) \<and>
   after_turn (process True ''skip'' (interview repeated_name_session skipping_turns)) =
     interview repeated_name_session skipping_turns"
  by code_simp

subsection \<open>C4: the turn limit\<close>

text \<open>
  What the code does on a turn with an active topic and no disengagement phrase: the
  transition is forced if and only if the turn count, already incremented for this turn,
  is greater than the limit, which is 2 when the lower-cased topic tag contains
  "unverified" and 3 otherwise. From the selector's activation of an unverified skill
  (count 1) the first follow-up turn keeps the topic (count 2) and the second follow-up
  turn (count 3) fires the transition.
\<close>

lemma turn_limit_rule:
  "(current_topic ctx = Some t \<and> t \<noteq> [] \<and> \<not> is_unknown user_input \<longrightarrow>
      (force_transition user_input (bump_turns ctx) \<longleftrightarrow>
         (if is_unverified_topic t then 2 else 3) < topic_turns ctx + 1) \<and>
      transition user_input ctx =
        (if (if is_unverified_topic t then 2 else 3) < topic_turns ctx + 1
         then retire t (bump_turns ctx) else bump_turns ctx)) \<and>
   (unverified_asked c < length (unverified_skills c) \<and>
    projects_asked c = unverified_asked c * 2 \<and> \<not> is_unknown u1 \<and> \<not> is_unknown u2 \<longrightarrow>
      current_topic (select_topic c) =
        Some (''Unverified: '' @ unverified_skills c ! unverified_asked c) \<and>
      topic_turns (select_topic c) = 1 \<and>
      process True u1 (select_topic c) = Completed ((select_topic c)\<lparr>topic_turns := 2\<rparr>) \<and>
      force_transition u2 (bump_turns ((select_topic c)\<lparr>topic_turns := 2\<rparr>)) \<and>
      current_topic (transition u2 ((select_topic c)\<lparr>topic_turns := 2\<rparr>)) = None)"
proof (intro conjI impI)
  assume h: "current_topic ctx = Some t \<and> t \<noteq> [] \<and> \<not> is_unknown user_input"
  then show f: "force_transition user_input (bump_turns ctx) \<longleftrightarrow>
      (if is_unverified_topic t then 2 else 3) < topic_turns ctx + 1"
    using force_transition_limit[of ctx t user_input] by (simp add: max_turns_def)
  from h show "transition user_input ctx =
        (if (if is_unverified_topic t then 2 else 3) < topic_turns ctx + 1
         then retire t (bump_turns ctx) else bump_turns ctx)"
    using transition_active[of ctx t user_input] f by simp
next
  assume h: "unverified_asked c < length (unverified_skills c) \<and>
    projects_asked c = unverified_asked c * 2 \<and> \<not> is_unknown u1 \<and> \<not> is_unknown u2"
  let ?t = "''Unverified: '' @ unverified_skills c ! unverified_asked c"
  let ?c0 = "select_topic c"
  let ?c1 = "?c0\<lparr>topic_turns := 2\<rparr>"
  show top: "current_topic ?c0 = Some ?t" using h by (simp add: select_topic_picks)
  show "topic_turns ?c0 = 1" by (simp add: select_fields)
  have ne: "?t \<noteq> []" by simp
  have unv: "is_unverified_topic ?t" by (rule unverified_prefix_is_unverified)
  have u1: "\<not> is_unknown u1" and u2: "\<not> is_unknown u2" using h by simp_all
  have nf: "\<not> force_transition u1 (bump_turns ?c0)"
    using force_transition_limit[OF top ne u1] unv by (simp add: max_turns_def select_fields)
  have b: "bump_turns ?c0 = ?c1"
    using top by (simp add: bump_turns_def truthy_def select_fields)
  have tr: "transition u1 ?c0 = ?c1"
    using transition_active[OF top ne, of u1] nf b by simp
  have nsel: "\<not> selector_runs ?c0 ?c1"
    using top by (simp add: selector_runs_def select_fields truthy_def)
  show "process True u1 ?c0 = Completed ?c1"
    using tr nsel by (simp add: process_def)
  have top1: "current_topic ?c1 = Some ?t" using top by simp
  show f2: "force_transition u2 (bump_turns ?c1)"
    using force_transition_limit[OF top1 ne u2] unv by (simp add: max_turns_def)
  have "transition u2 ?c1 = retire ?t (bump_turns ?c1)"
    using transition_active[OF top1 ne, of u2] f2 by simp
  then show "current_topic (transition u2 ?c1) = None" by (simp add: retire_fields)
qed

text \<open>
  The limit by the branch that activated the topic: 2 for an unverified skill, and for a
  project or verified skill 3 only if its name does not contain "unverified".
\<close>

lemma max_turns_by_branch:
  "max_turns (''Unverified: '' @ s) = 2 \<and>
   max_turns (''Project: '' @ n) = (if contains ''unverified'' (lower n) then 2 else 3) \<and>
   max_turns (''Verified Skill: '' @ s) = (if contains ''unverified'' (lower s) then 2 else 3)"
proof -
  have u: "is_unverified_topic (''Unverified: '' @ s)"
    by (rule unverified_prefix_is_unverified)
  have a: "is_unverified_topic (''Project: '' @ n) = contains ''unverified'' (lower n)"
    unfolding is_unverified_topic_def lower_append lower_Project
    by (rule contains_after_prefix)
  have b: "is_unverified_topic (''Verified Skill: '' @ s) = contains ''unverified'' (lower s)"
    unfolding is_unverified_topic_def lower_append lower_Verified_Skill
    by (rule contains_after_prefix)
  show ?thesis
    unfolding max_turns_def a b by (simp only: u if_True simp_thms)
qed

text \<open>
  C4. Claimed: without a disengagement phrase the transition is forced if and only if the
  incremented turn count is greater than the limit, 2 for a topic of the
  unverified-skill category and 3 otherwise. The code takes the category from the
  substring test on the whole topic tag (line 74), so a project whose name contains
  "unverified" gets the limit 2, against the claim and against the comment of line 73
  (3 turns for projects). From a fresh session with the one project "Unverified
  Payments": the selector activates it as a project, the first follow-up turn keeps it
  with a count of 2, and the second follow-up turn, with a count of 3, forces the
  transition, where the limit 3 of a project would keep the topic. A project without
  the word in its name has the limit 3.
\<close>

theorem project_cut_at_two:
  "fresh unverified_payments_session \<and>
   interview unverified_payments_session [(True, ''hello'')] = unverified_payments_topic \<and>
   current_topic unverified_payments_topic = Some ''Project: Unverified Payments'' \<and>
   \<not> is_unknown ''yes'' \<and>
   max_turns ''Project: Unverified Payments'' = 2 \<and>
   max_turns ''Project: PayAPI'' = 3 \<and>
   process True ''yes'' unverified_payments_topic =
     Completed (unverified_payments_topic\<lparr>topic_turns := 2\<rparr>) \<and>
   force_transition ''yes'' (bump_turns (unverified_payments_topic\<lparr>topic_turns := 2\<rparr>)) \<and>
   current_topic (transition ''yes'' (unverified_payments_topic\<lparr>topic_turns := 2\<rparr>)) = None \<and>
   covered_topics (transition ''yes'' (unverified_payments_topic\<lparr>topic_turns := 2\<rparr>)) =
     [''Unverified Payments'']"
  by code_simp

subsection \<open>C5: the disengagement short-circuit\<close>

text \<open>
  What holds on every turn on which a topic is active and the lower-cased input contains
  a disengagement phrase: the transition is forced whatever the turn count is, the
  current topic and the turn count are cleared before the selector runs in the same
  turn, and the name recorded for the topic is among the covered topics afterwards.
\<close>

lemma disengagement_forces:
  assumes "current_topic ctx = Some t" and "t \<noteq> []" and "is_unknown user_input"
  shows "force_transition user_input (bump_turns ctx) \<and>
         current_topic (transition user_input ctx) = None \<and>
         topic_turns (transition user_input ctx) = 0 \<and>
         normalize_name (topic_name_of t) \<in> set (normalized_covered (transition user_input ctx)) \<and>
         process True user_input ctx = Completed (select_topic (transition user_input ctx))"
proof -
  have f: "force_transition user_input (bump_turns ctx)"
    using assms by (rule force_transition_unknown)
  have tr: "transition user_input ctx = retire t (bump_turns ctx)"
    using assms(1,2) f by (simp add: transition_active)
  have sel: "selector_runs ctx (transition user_input ctx)"
    by (simp add: tr selector_runs_def retire_fields truthy_def)
  show ?thesis
    using f sel by (simp add: tr retire_fields retire_marks process_def Let_def)
qed

text \<open>
  C5. Claimed: on such a turn the topic is added to the covered topics, the counter of its
  category is incremented exactly once and the current topic is cleared. The counter is
  where the code departs. The category is taken from the substring test on the whole
  topic tag (line 87, the test of line 74), so when the candidate skips the project
  "Unverified Payments", activated by the project branch, \<open>unverified_asked\<close> goes up
  and \<open>projects_asked\<close> does not. And the name recorded is the piece after the last
  colon-space (line 80), while the project filter of line 118 looks for the whole name:
  the project "API: v2" is recorded as "v2", selected again, and the second skip finds
  "v2" covered, adds nothing and increments no counter.
\<close>

theorem skip_miscounted:
  "fresh unverified_payments_session \<and>
   interview unverified_payments_session [(True, ''hello'')] = unverified_payments_topic \<and>
   current_topic unverified_payments_topic = Some ''Project: Unverified Payments'' \<and>
   is_unknown ''skip'' \<and>
   covered_topics (transition ''skip'' unverified_payments_topic) = [''Unverified Payments''] \<and>
   unverified_asked (transition ''skip'' unverified_payments_topic) = 1 \<and>
   projects_asked (transition ''skip'' unverified_payments_topic) = 0 \<and>
   fresh colon_project_start \<and>
   interview colon_project_start [(True, ''hello''), (True, ''skip'')] = colon_project_session \<and>
   current_topic colon_project_session = Some ''Project: API: v2'' \<and>
   covered_topics (transition ''skip'' colon_project_session) =
     covered_topics colon_project_session \<and>
   projects_asked (transition ''skip'' colon_project_session) =
     projects_asked colon_project_session \<and>
   unverified_asked (transition ''skip'' colon_project_session) =
     unverified_asked colon_project_session"
  by code_simp

subsection \<open>C6: retiring a covered topic\<close>

text \<open>
  C6, as amended. In the langchain interviewer retiring is idempotent: for a topic whose
  normalized name is already covered, retiring it, and so a forced transition on it,
  leaves the covered topics, \<open>unverified_asked\<close> and \<open>projects_asked\<close> unchanged, and
  retiring any topic a second time changes nothing the first time did not. The
  interviewer of the LangGraph variant has no forced transition; its retirement on a
  reply that says "moving on" is not guarded: it appends the topic's name and increments
  one counter every time, covered or not.
\<close>

theorem retire_idempotent:
  "(normalize_name (topic_name_of t) \<in> set (normalized_covered c) \<longrightarrow>
      covered_topics (retire t c) = covered_topics c \<and>
      unverified_asked (retire t c) = unverified_asked c \<and>
      projects_asked (retire t c) = projects_asked c) \<and>
   (covered_topics (retire t (retire t c)) = covered_topics (retire t c) \<and>
    unverified_asked (retire t (retire t c)) = unverified_asked (retire t c) \<and>
    projects_asked (retire t (retire t c)) = projects_asked (retire t c)) \<and>
   (current_topic c = Some t \<and> t \<noteq> [] \<and> force_transition user_input (bump_turns c) \<and>
    normalize_name (topic_name_of t) \<in> set (normalized_covered c) \<longrightarrow>
      covered_topics (transition user_input c) = covered_topics c \<and>
      unverified_asked (transition user_input c) = unverified_asked c \<and>
      projects_asked (transition user_input c) = projects_asked c) \<and>
   (current_topic c = Some t \<and> t \<noteq> [] \<and> moving_on response \<longrightarrow>
      covered_topics (update_trackers response c) = covered_topics c @ [topic_name_of t] \<and>
      unverified_asked (update_trackers response c) + projects_asked (update_trackers response c) =
        unverified_asked c + projects_asked c + 1)"
proof (intro conjI impI)
  assume "normalize_name (topic_name_of t) \<in> set (normalized_covered c)"
  from retire_covered[OF this]
  show "covered_topics (retire t c) = covered_topics c"
    and "unverified_asked (retire t c) = unverified_asked c"
    and "projects_asked (retire t c) = projects_asked c"
    by simp_all
next
  from retire_covered[OF retire_marks[of t c]]
  show "covered_topics (retire t (retire t c)) = covered_topics (retire t c)"
    and "unverified_asked (retire t (retire t c)) = unverified_asked (retire t c)"
    and "projects_asked (retire t (retire t c)) = projects_asked (retire t c)"
    by simp_all
next
  assume h: "current_topic c = Some t \<and> t \<noteq> [] \<and> force_transition user_input (bump_turns c) \<and>
    normalize_name (topic_name_of t) \<in> set (normalized_covered c)"
  then have tr: "transition user_input c = retire t (bump_turns c)"
    by (simp add: transition_active)
  from h have "normalize_name (topic_name_of t) \<in> set (normalized_covered (bump_turns c))"
    by (simp add: bump_fields)
  from retire_covered[OF this]
  show "covered_topics (transition user_input c) = covered_topics c"
    and "unverified_asked (transition user_input c) = unverified_asked c"
    and "projects_asked (transition user_input c) = projects_asked c"
    by (simp_all add: tr bump_fields)
next
  assume h: "current_topic c = Some t \<and> t \<noteq> [] \<and> moving_on response"
  then have "covered_topics (update_trackers response c) = covered_topics c @ [topic_name_of t] \<and>
         unverified_asked (update_trackers response c) + projects_asked (update_trackers response c) =
           unverified_asked c + projects_asked c + 1"
    by (intro update_trackers_counts) simp_all
  then show "covered_topics (update_trackers response c) = covered_topics c @ [topic_name_of t]"
    and "unverified_asked (update_trackers response c) + projects_asked (update_trackers response c) =
           unverified_asked c + projects_asked c + 1"
    by simp_all
qed

text \<open>
  The theorem at the project whose name "v2" is already covered: a skip leaves the
  covered topics and the counters of the langchain session as they are, while "moving
  on" in the LangGraph variant appends the name again.
\<close>

theorem retire_idempotent_witness:
  "normalize_name (topic_name_of ''Project: API: v2'') \<in>
     set (normalized_covered colon_project_session) \<and>
   current_topic colon_project_session = Some ''Project: API: v2'' \<and>
   force_transition ''skip'' (bump_turns colon_project_session) \<and>
   covered_topics (retire ''Project: API: v2'' colon_project_session) =
     covered_topics colon_project_session \<and>
   projects_asked (transition ''skip'' colon_project_session) =
     projects_asked colon_project_session \<and>
   moving_on ''Moving on.'' \<and>
   covered_topics (update_trackers ''Moving on.'' colon_project_session) =
     covered_topics colon_project_session @ [topic_name_of ''Project: API: v2'']"
proof -
  have a: "normalize_name (topic_name_of ''Project: API: v2'') \<in>
             set (normalized_covered colon_project_session)"
    by code_simp
  have b: "current_topic colon_project_session = Some ''Project: API: v2''" by code_simp
  have ne: "''Project: API: v2'' \<noteq> []" by simp
  have f: "force_transition ''skip'' (bump_turns colon_project_session)" by code_simp
  have m: "moving_on ''Moving on.''" by code_simp
  note t = retire_idempotent[of "''Project: API: v2''" colon_project_session "''skip''"
                                "''Moving on.''"]
  from t a have "covered_topics (retire ''Project: API: v2'' colon_project_session) =
                   covered_topics colon_project_session"
    by blast
  moreover from t a b ne f
  have "projects_asked (transition ''skip'' colon_project_session) =
          projects_asked colon_project_session"
    by blast
  moreover from t b ne m
  have "covered_topics (update_trackers ''Moving on.'' colon_project_session) =
          covered_topics colon_project_session @ [topic_name_of ''Project: API: v2'']"
    by blast
  ultimately show ?thesis using a b f m by blast
qed

text \<open>
  C6 as stated fails for the interviewer of the LangGraph variant. From a fresh session
  with the one project "API: v2", a first reply that says "moving on" retires it under
  the name "v2"; the project is selected again, and a second such reply, on a topic whose
  name is now covered, appends the name again and takes \<open>projects_asked\<close> from 1 to 2.
\<close>

theorem retire_idempotent_counterexample:
  "fresh colon_project_start \<and>
   after_turn (process_langgraph (Some ''Moving on.'') colon_project_start) =
     colon_project_start\<lparr>covered_topics := [''v2''], projects_asked := 1\<rparr> \<and>
   after_turn (process_langgraph (Some ''Moving on.'')
       (colon_project_start\<lparr>covered_topics := [''v2''], projects_asked := 1\<rparr>)) =
     colon_project_start\<lparr>covered_topics := [''v2'', ''v2''], projects_asked := 2\<rparr>"
  by code_simp

subsection \<open>C7: the current topic and the turn count\<close>

text \<open>
  C7, as amended. In every session reached from a fresh one by completed interviewer
  turns, \<open>topic_turns = 0\<close> implies that \<open>current_topic\<close> is \<open>None\<close>; indeed the stored
  \<open>topic_turns\<close> is at least 1 after every completed interviewer turn. The converse does
  not hold: when the selector falls through to the generic fallback, \<open>current_topic\<close>
  stays \<open>None\<close> and \<open>topic_turns\<close> is 1.
\<close>

theorem topic_turns_after_turns:
  assumes "fresh c0" and "list_all fst turns"
  shows "(topic_turns (interview c0 turns) = 0 \<longrightarrow> current_topic (interview c0 turns) = None) \<and>
         (turns \<noteq> [] \<longrightarrow> 1 \<le> topic_turns (interview c0 turns))"
proof (cases "turns = []")
  case True
  with assms(1) show ?thesis by (simp add: fresh_def)
next
  case False
  with interview_turns_positive[OF assms(2) False, of c0] show ?thesis by simp
qed

text \<open>
  The theorem after the first turn of the session with one unverified skill: the topic
  is set and the count is 1.
\<close>

theorem topic_turns_after_turns_witness:
  "fresh kubernetes_session \<and> list_all fst [(True, ''hello'')] \<and>
   current_topic (interview kubernetes_session [(True, ''hello'')]) =
     Some ''Unverified: Kubernetes'' \<and>
   1 \<le> topic_turns (interview kubernetes_session [(True, ''hello'')])"
proof -
  have f: "fresh kubernetes_session" by code_simp
  have l: "list_all fst [(True, ''hello'')]" by simp
  have ne: "[(True, ''hello'')] \<noteq> []" by simp
  from topic_turns_after_turns[OF f l] ne
  have "1 \<le> topic_turns (interview kubernetes_session [(True, ''hello'')])"
    by blast
  moreover
  have "current_topic (interview kubernetes_session [(True, ''hello'')]) =
          Some ''Unverified: Kubernetes''"
    by code_simp
  ultimately show ?thesis using f l by blast
qed

text \<open>
  C7 as stated fails in the generic fallback: a new session with no skills and no
  projects has \<open>current_topic = None\<close> and \<open>topic_turns = 1\<close> after its first completed
  interviewer turn.
\<close>

theorem topic_turns_after_turns_counterexample:
  "fresh (new_session []) \<and>
   current_topic (interview (new_session []) [(True, ''hello'')]) = None \<and>
   topic_turns (interview (new_session []) [(True, ''hello'')]) = 1 \<and>
   \<not> (current_topic (interview (new_session []) [(True, ''hello'')]) = None \<longleftrightarrow>
        topic_turns (interview (new_session []) [(True, ''hello'')]) = 0)"
  by code_simp

text \<open>
  Why the turns have to be completed: when the model call raises after the selector has
  run, the session keeps the new topic with the old count.
\<close>

lemma failed_turn_keeps_old_count:
  "after_turn (process False ''hello'' kubernetes_session) =
     kubernetes_session\<lparr>current_topic := Some ''Unverified: Kubernetes''\<rparr>"
  by code_simp

subsection \<open>C8: scoring is terminal\<close>

text \<open>
  C8. Once the state of a session of the chat endpoint is \<open>SCORING\<close>, it stays \<open>SCORING\<close>
  after any further turns, and every further turn is dispatched to the scoring agent,
  whatever the user writes and whether or not the model call returns. The session is
  any one reached from the session created on first contact by turns of the chat
  endpoint; by then the history is too long for the greeting shortcut to apply.
\<close>

theorem scoring_is_terminal:
  assumes "c = chat (new_session skills) turns" and "state c = ''SCORING''"
  shows "state (chat c later) = ''SCORING'' \<and>
         fst (route e user_input (chat c later)) = ScoreAgent \<and>
         state (chat_with_agent e user_input (chat c later)) = ''SCORING''"
proof -
  have inv: "chat_inv c" unfolding assms(1) by (rule chat_inv_chat[OF chat_inv_new])
  then have inv': "chat_inv (chat c later)" by (rule chat_inv_chat)
  have st: "state (chat c later) = ''SCORING''" using inv assms(2) by (rule scoring_forever)
  with scoring_step[OF inv' st] show ?thesis by simp
qed

text \<open>
  The theorem at a chat that skips the research, accepts the benchmarks and asks to
  finish: the state is \<open>SCORING\<close>, and the input "hi", which a new session answers with
  the greeting agent, now goes to the scoring agent and leaves the state as it is.
\<close>

theorem scoring_is_terminal_witness:
  "state (chat (new_session [''Python'']) to_scoring) = ''SCORING'' \<and>
   greeting_requested ''hi'' (new_session [''Python'']) \<and>
   fst (route calm ''hi'' (chat (new_session [''Python'']) to_scoring)) = ScoreAgent \<and>
   state (chat_with_agent calm ''hi'' (chat (new_session [''Python'']) to_scoring)) = ''SCORING''"
proof -
  have s: "state (chat (new_session [''Python'']) to_scoring) = ''SCORING''" by code_simp
  have g: "greeting_requested ''hi'' (new_session [''Python''])" by code_simp
  from scoring_is_terminal[OF refl s, of "[]" calm "''hi''"] s g show ?thesis by simp
qed

subsection \<open>C9: recovery from a malformed analysis\<close>

text \<open>
  C9, as amended. When the reply of the deep analysis does not parse, and more generally
  whenever the body of the analysis raises, \<^verbatim>\<open>ResearchAgent._perform_deep_analysis\<close> returns
  its default: the fixed analysis sentence, the empty list of unverified skills and the
  repositories fetched from the verification collaborator, unchanged; the research turn
  then completes, stores these and reports \<open>KPI_CALCULATION\<close>. The analysis step of
  \<^verbatim>\<open>research_node\<close> in the LangGraph variant also completes on a reply that does not
  parse, but its recovery sets the unverified skills to the one placeholder "Technical
  Depth" and leaves the stored list of projects as it is.
\<close>

theorem malformed_output_recovery:
  "analysis_try real_projects Unparsable = Inl OutputParserException \<and>
   (analysis_try real_projects reply = Inl e \<longrightarrow>
      perform_deep_analysis real_projects reply =
        (JStr ''I've analyzed your profiles and am ready to proceed.'', JList [],
         map repo_json real_projects) \<and>
      research_analysis_turn real_projects reply =
        Inr \<lparr>stored_unverified_skills = JList [],
             stored_discovered_projects = map repo_json real_projects,
             next_state = Some ''KPI_CALCULATION''\<rparr>) \<and>
   research_node_analysis stored Unparsable = Inr (JList [JStr ''Technical Depth''], stored)"
proof (intro conjI impI)
  show "analysis_try real_projects Unparsable = Inl OutputParserException"
    by (simp add: analysis_try_def)
  show "research_node_analysis stored Unparsable = Inr (JList [JStr ''Technical Depth''], stored)"
    by (simp add: research_node_analysis_def)
next
  assume "analysis_try real_projects reply = Inl e"
  from analysis_raise_recovered[OF this]
  show p: "perform_deep_analysis real_projects reply =
        (JStr ''I've analyzed your profiles and am ready to proceed.'', JList [],
         map repo_json real_projects)"
    by (simp add: default_analysis_def)
  show "research_analysis_turn real_projects reply =
        Inr \<lparr>stored_unverified_skills = JList [],
             stored_discovered_projects = map repo_json real_projects,
             next_state = Some ''KPI_CALCULATION''\<rparr>"
    by (simp add: research_analysis_turn_def p)
qed

text \<open>
  The theorem at a reply that does not parse, with one repository fetched: the body
  raises, and the turn stores no unverified skill and that repository.
\<close>

theorem malformed_output_recovery_witness:
  "analysis_try one_repo Unparsable = Inl OutputParserException \<and>
   perform_deep_analysis one_repo Unparsable =
     (JStr ''I've analyzed your profiles and am ready to proceed.'', JList [],
      [JDict [(''name'', JStr ''priya/payapi''), (''description'', JStr ''Payments service'')]]) \<and>
   research_analysis_turn one_repo Unparsable =
     Inr \<lparr>stored_unverified_skills = JList [],
          stored_discovered_projects = map repo_json one_repo,
          next_state = Some ''KPI_CALCULATION''\<rparr>"
proof -
  note t = malformed_output_recovery[of one_repo Unparsable OutputParserException JNull]
  from t have h: "analysis_try one_repo Unparsable = Inl OutputParserException" by blast
  from t h have "perform_deep_analysis one_repo Unparsable =
      (JStr ''I've analyzed your profiles and am ready to proceed.'', JList [],
       map repo_json one_repo)"
    by blast
  moreover have "map repo_json one_repo =
      [JDict [(''name'', JStr ''priya/payapi''), (''description'', JStr ''Payments service'')]]"
    by code_simp
  moreover from t h have "research_analysis_turn one_repo Unparsable =
      Inr \<lparr>stored_unverified_skills = JList [],
           stored_discovered_projects = map repo_json one_repo,
           next_state = Some ''KPI_CALCULATION''\<rparr>"
    by blast
  ultimately show ?thesis using h by simp
qed

text \<open>
  C9 as stated fails for \<^verbatim>\<open>research_node\<close>: on a reply that does not parse the list of
  unverified skills it returns is not empty.
\<close>

theorem malformed_output_recovery_counterexample:
  "research_node_analysis (JList (map repo_json one_repo)) Unparsable =
     Inr (JList [JStr ''Technical Depth''], JList (map repo_json one_repo)) \<and>
   JList [JStr ''Technical Depth''] \<noteq> JList []"
  by code_simp

subsection \<open>C10: the shape of the discovered projects\<close>

text \<open>
  C10, as amended. Every element of the project list returned by the deep analysis is a
  record. When the model's reply is a dictionary whose project entry is a list (the
  empty list when the entry is missing), the records of that list are kept as they are,
  whether or not they have a name field,
  bare strings become the record with that name and an empty description, and entries of
  any other kind are dropped; if nothing remains, the list of repositories fetched from
  the verification collaborator is returned unchanged.
\<close>

theorem deep_analysis_projects:
  assumes "perform_deep_analysis real_projects reply = (analysis, unverified, projects)"
  shows "(\<forall>p \<in> set projects. is_record p) \<and>
         (\<forall>data items. reply = Parsed data \<and>
             dict_get data ''discovered_projects'' (JList []) = Inr (JList items) \<longrightarrow>
             projects = (if filter usable items = [] then map repo_json real_projects
                         else map as_record (filter usable items)))"
proof (intro conjI allI impI)
  show "\<forall>p \<in> set projects. is_record p"
    using assms by (rule analysis_projects_records)
next
  fix data items
  assume h: "reply = Parsed data \<and>
             dict_get data ''discovered_projects'' (JList []) = Inr (JList items)"
  then have "snd (snd (perform_deep_analysis real_projects (Parsed data))) =
           (if filter usable items = [] then map repo_json real_projects
            else map as_record (filter usable items))"
    by (intro analysis_of_list) simp
  with h assms show "projects = (if filter usable items = [] then map repo_json real_projects
                         else map as_record (filter usable items))"
    by simp
qed

text \<open>
  The theorem at a reply whose list holds a record, a bare string and a number: the
  record is kept, the string becomes a record, the number is dropped.
\<close>

theorem deep_analysis_projects_witness:
  "perform_deep_analysis one_repo mixed_reply =
     (JStr [], JList [],
      [JDict [(''name'', JStr ''PayAPI'')],
       JDict [(''name'', JStr ''Scraper''), (''description'', JStr [])]]) \<and>
   list_all is_record
      [JDict [(''name'', JStr ''PayAPI'')],
       JDict [(''name'', JStr ''Scraper''), (''description'', JStr [])]]"
proof -
  have h: "perform_deep_analysis one_repo mixed_reply =
     (JStr [], JList [],
      [JDict [(''name'', JStr ''PayAPI'')],
       JDict [(''name'', JStr ''Scraper''), (''description'', JStr [])]])"
    by code_simp
  from deep_analysis_projects[OF h]
  have "\<forall>p \<in> set [JDict [(''name'', JStr ''PayAPI'')],
                   JDict [(''name'', JStr ''Scraper''), (''description'', JStr [])]]. is_record p"
    by (rule conjunct1)
  then have "list_all is_record
      [JDict [(''name'', JStr ''PayAPI'')],
       JDict [(''name'', JStr ''Scraper''), (''description'', JStr [])]]"
    by (simp only: list_all_iff)
  with h show ?thesis by (rule conjI)
qed

text \<open>
  C10 as stated fails for a record the model returns without a name: it is passed on as
  it is, so an element of the result has no name field.
\<close>

theorem deep_analysis_projects_counterexample:
  "perform_deep_analysis one_repo nameless_reply =
     (JStr ''Looks solid.'', JList [JStr ''Kubernetes''], [JDict [(''title'', JStr ''PayAPI'')]]) \<and>
   \<not> has_name (JDict [(''title'', JStr ''PayAPI'')])"
  by code_simp

end
